theory Spec2Isabelle
  imports Main "HOL-Library.Multiset"
begin

section \<open>Go values: errors, strings\<close>

text \<open>
  An error reported by the container engine through the \<open>DockerClient\<close> interface.
  The provider only ever asks one question of such an error, \<open>client.IsErrNotFound\<close>,
  so the engine's errors are split along that line; the string is the message.
\<close>

datatype engine_error = ErrNotFound string | ErrOther string

fun IsErrNotFound :: "engine_error \<Rightarrow> bool" where
  "IsErrNotFound (ErrNotFound m) = True"
| "IsErrNotFound (ErrOther m) = False"

text \<open>
  Go's \<open>error\<close> values as the provider builds them. \<open>Errorf m\<close> is
  \<open>fmt.Errorf\<close> without a wrapped cause, \<open>Wrap m e\<close> is \<open>fmt.Errorf("m: %w", e)\<close>,
  \<open>EngineError\<close> is an error that came out of the engine, \<open>LibError\<close> one that came
  out of a library or the operating system (\<open>url.Parse\<close>, koanf, \<open>os\<close>).
  \<open>NilPointerPanic\<close> is not a returned value: it stands for the run-time panic of a
  nil pointer dereference, which ends the call without a result.

  A Go function that returns a value and an error returns \<open>error + 'a\<close> here: with an
  error the provider returns the zero value, which carries nothing. A function that
  returns only an error returns \<open>error option\<close>, \<open>None\<close> for nil.
\<close>

datatype error =
    EngineError engine_error
  | LibError string
  | Errorf string
  | Wrap string error
  | NilPointerPanic

text \<open>\<open>strings.Join\<close>.\<close>

fun Join :: "string list \<Rightarrow> string \<Rightarrow> string" where
  "Join [] sep = []"
| "Join [x] sep = x"
| "Join (x # y # ys) sep = x @ sep @ Join (y # ys) sep"

text \<open>\<open>strings.Trim(s, c)\<close> for a one-character cutset.\<close>

definition Trim :: "string \<Rightarrow> char \<Rightarrow> string" where
  "Trim s c = rev (dropWhile (\<lambda>x. x = c) (rev (dropWhile (\<lambda>x. x = c) s)))"

text \<open>
  \<open>strings.Split(s, c)\<close> for a one-character separator: one more piece than there are
  separators, so the empty string splits into one empty piece.
\<close>

fun Split :: "string \<Rightarrow> char \<Rightarrow> string list" where
  "Split [] c = [[]]"
| "Split (x # xs) c =
     (if x = c then [] # Split xs c
      else (case Split xs c of [] \<Rightarrow> [[x]] | p # ps \<Rightarrow> (x # p) # ps))"

text \<open>\<open>strings.Contains(s, c)\<close> and \<open>strings.SplitN(s, c, 2)\<close> for a one-character \<open>c\<close>.\<close>

definition Contains :: "string \<Rightarrow> char \<Rightarrow> bool" where
  "Contains s c = (c \<in> set s)"

definition SplitN2 :: "string \<Rightarrow> char \<Rightarrow> string list" where
  "SplitN2 s c =
     (if c \<in> set s then [takeWhile (\<lambda>x. x \<noteq> c) s, tl (dropWhile (\<lambda>x. x \<noteq> c) s)]
      else [s])"

text \<open>Reading a Go \<open>map[string]string\<close>: a missing key reads as the empty string.\<close>

definition lookup :: "(string \<rightharpoonup> string) \<Rightarrow> string \<Rightarrow> string" where
  "lookup m k = (case m k of None \<Rightarrow> [] | Some v \<Rightarrow> v)"

section \<open>pkg/config\<close>

text \<open>
  \<open>ProviderConfig\<close>. \<open>DockerConfigPath\<close> is the field the provider reads in
  \<open>getRegistryAuth\<close>; \<open>setDefaults\<close> does not touch it.
\<close>

record ProviderConfig =
  DockerHost :: string
  Runtime :: string
  Network :: string
  RemoveVolumes :: bool
  Privileged :: bool
  Binds :: "string list"
  AlwaysPull :: bool
  DockerConfigPath :: string

definition setDefaults :: "ProviderConfig \<Rightarrow> ProviderConfig" where
  "setDefaults c0 =
     (let c1 = (if DockerHost c0 = [] then c0\<lparr>DockerHost := ''unix:///var/run/docker.sock''\<rparr> else c0);
          c2 = (if Runtime c1 = [] then c1\<lparr>Runtime := ''sysbox-runc''\<rparr> else c1);
          c3 = (if Network c2 = [] then c2\<lparr>Network := ''bridge''\<rparr> else c2);
          c4 = (if \<not> RemoveVolumes c3 then c3\<lparr>RemoveVolumes := True\<rparr> else c3)
      in c4)"

text \<open>
  The koanf library, taken as a parameter: \<open>New\<close> is the empty store, \<open>Load\<close> reads
  and parses the file at a path, \<open>Unmarshal\<close> writes the store's keys into the
  configuration it is given and may fail, leaving whatever it wrote.
\<close>

record 'k Koanf =
  New :: 'k
  Load :: "string \<Rightarrow> error + 'k"
  Unmarshal :: "'k \<Rightarrow> ProviderConfig \<Rightarrow> error option \<times> ProviderConfig"

text \<open>
  \<open>NewConfig\<close> works on the package variable \<open>config.Config\<close>, here \<open>config\<close>: the model takes its value
  before the call and returns the error together with its value after the call.
\<close>

definition NewConfig :: "'k Koanf \<Rightarrow> string \<Rightarrow> ProviderConfig \<Rightarrow> error option \<times> ProviderConfig" where
  "NewConfig lib path config =
     (case (if path \<noteq> [] then Load lib path else Inr (New lib)) of
        Inl err \<Rightarrow> (Some (Wrap ''failed to load config'' err), config)
      | Inr k \<Rightarrow>
          (case Unmarshal lib k config of
             (Some err, config') \<Rightarrow> (Some (Wrap ''failed to unmarshal config'' err), config')
           | (None, config') \<Rightarrow> (None, setDefaults config')))"

text \<open>A store for the examples: it holds the value of \<open>remove_volumes\<close>, if the file gives one.\<close>

definition yaml_koanf :: "(bool option) Koanf" where
  "yaml_koanf =
     \<lparr>New = None,
      Load = (\<lambda>path. if path = ''config.yaml'' then Inr (Some False)
                      else Inl (LibError ''no such file'')),
      Unmarshal = (\<lambda>k c. (None, (case k of None \<Rightarrow> c | Some b \<Rightarrow> c\<lparr>RemoveVolumes := b\<rparr>)))\<rparr>"

definition zero_config :: ProviderConfig where
  "zero_config =
     \<lparr>DockerHost = [], Runtime = [], Network = [], RemoveVolumes = False, Privileged = False,
      Binds = [], AlwaysPull = False, DockerConfigPath = []\<rparr>"

section \<open>internal/spec\<close>

definition GarmInstanceNameLabel :: string where "GarmInstanceNameLabel = ''garm.runner/instance-name''"
definition GarmControllerIDLabel :: string where "GarmControllerIDLabel = ''garm.runner/controller-id''"
definition GarmPoolIDLabel :: string where "GarmPoolIDLabel = ''garm.runner/pool-id''"
definition GarmFlavorLabel :: string where "GarmFlavorLabel = ''garm.runner/flavor''"
definition GarmOSTypeLabel :: string where "GarmOSTypeLabel = ''garm.runner/os-type''"
definition GarmOSArchLabel :: string where "GarmOSArchLabel = ''garm.runner/os-arch''"

record GitHubScopeDetails =
  BaseURL :: string
  Repo :: string
  Org :: string
  Enterprise :: string

text \<open>The fields of \<open>params.BootstrapInstance\<close> that the provider reads.\<close>

record BootstrapInstance =
  Name :: string
  Image :: string
  RepoURL :: string
  PoolID :: string
  Flavor :: string
  OSType :: string
  OSArch :: string
  Labels :: "string list"
  GitHubRunnerGroup :: string
  MetadataURL :: string
  InstanceToken :: string
  CallbackURL :: string

text \<open>The fields of \<open>url.URL\<close> that the scope extraction reads.\<close>

record URL =
  Scheme :: string
  Host :: string
  Path :: string

text \<open>
  \<open>ExtractGitHubScopeDetails\<close>. Go's \<open>url.Parse\<close> is the parameter \<open>parse\<close>.
  The \<open>switch\<close> takes the first case that holds, in the order of the source.
\<close>

definition ExtractGitHubScopeDetails ::
    "(string \<Rightarrow> error + URL) \<Rightarrow> string \<Rightarrow> error + GitHubScopeDetails" where
  "ExtractGitHubScopeDetails parse gitRepoURL =
     (if gitRepoURL = [] then Inl (Errorf ''no gitRepoURL supplied'')
      else case parse gitRepoURL of
        Inl err \<Rightarrow> Inl (Wrap ''invalid URL'' err)
      | Inr u \<Rightarrow>
          if Scheme u = [] \<or> Host u = [] then Inl (Errorf (''invalid URL: '' @ gitRepoURL))
          else
            let pathParts = Split (Trim (Path u) CHR ''/'') CHR ''/'';
                scope = \<lparr>BaseURL = Scheme u @ ''://'' @ Host u, Repo = [], Org = [], Enterprise = []\<rparr>
            in if length pathParts = 1 then Inr (scope\<lparr>Org := pathParts ! 0\<rparr>)
               else if length pathParts = 2 \<and> pathParts ! 0 = ''enterprises''
                 then Inr (scope\<lparr>Enterprise := pathParts ! 1\<rparr>)
               else if length pathParts = 2
                 then Inr (scope\<lparr>Org := pathParts ! 0, Repo := pathParts ! 1\<rparr>)
               else Inl (Errorf ''URL does not match the expected patterns''))"

definition GetRunnerEnvs ::
    "(string \<Rightarrow> error + URL) \<Rightarrow> BootstrapInstance \<Rightarrow> error + string list" where
  "GetRunnerEnvs parse bootstrapParams =
     (case ExtractGitHubScopeDetails parse (RepoURL bootstrapParams) of
        Inl err \<Rightarrow> Inl err
      | Inr gitHubScope \<Rightarrow> Inr
          [''RUNNER_ORG='' @ Org gitHubScope,
           ''RUNNER_REPO='' @ Repo gitHubScope,
           ''RUNNER_ENTERPRISE='' @ Enterprise gitHubScope,
           ''RUNNER_GROUP='' @ GitHubRunnerGroup bootstrapParams,
           ''RUNNER_NAME='' @ Name bootstrapParams,
           ''RUNNER_LABELS='' @ Join (Labels bootstrapParams) '','',
           ''RUNNER_NO_DEFAULT_LABELS=true'',
           ''DISABLE_RUNNER_UPDATE=true'',
           ''RUNNER_WORKDIR=/runner/_work/'',
           ''GITHUB_URL='' @ BaseURL gitHubScope,
           ''RUNNER_EPHEMERAL=true'',
           ''RUNNER_TOKEN=dummy'',
           ''METADATA_URL='' @ MetadataURL bootstrapParams,
           ''BEARER_TOKEN='' @ InstanceToken bootstrapParams,
           ''CALLBACK_URL='' @ CallbackURL bootstrapParams])"

definition GetContainerLabels :: "string \<Rightarrow> BootstrapInstance \<Rightarrow> (string \<rightharpoonup> string)" where
  "GetContainerLabels controllerID bootstrapParams =
     (((((Map.empty
       (GarmInstanceNameLabel \<mapsto> Name bootstrapParams))
       (GarmControllerIDLabel \<mapsto> controllerID))
       (GarmPoolIDLabel \<mapsto> PoolID bootstrapParams))
       (GarmFlavorLabel \<mapsto> Flavor bootstrapParams))
       (GarmOSTypeLabel \<mapsto> OSType bootstrapParams))
       (GarmOSArchLabel \<mapsto> OSArch bootstrapParams)"

definition GetHostConfigRuntime :: "ProviderConfig \<Rightarrow> string" where
  "GetHostConfigRuntime config = Runtime config"

text \<open>
  What \<open>url.Parse\<close> returns for the URLs of the examples: scheme, host and path of
  \<open>https://github.com\<close>, \<open>https://github.com/org/repo\<close> and so on.
\<close>

definition github_parse :: "string \<Rightarrow> error + URL" where
  "github_parse s =
     (if s = ''https://github.com'' then Inr \<lparr>Scheme = ''https'', Host = ''github.com'', Path = []\<rparr>
      else if s = ''https://github.com/'' then Inr \<lparr>Scheme = ''https'', Host = ''github.com'', Path = ''/''\<rparr>
      else if s = ''https://github.com/org/repo''
        then Inr \<lparr>Scheme = ''https'', Host = ''github.com'', Path = ''/org/repo''\<rparr>
      else if s = ''https://github.com/enterprises/acme''
        then Inr \<lparr>Scheme = ''https'', Host = ''github.com'', Path = ''/enterprises/acme''\<rparr>
      else if s = ''https://github.com/org''
        then Inr \<lparr>Scheme = ''https'', Host = ''github.com'', Path = ''/org''\<rparr>
      else Inl (LibError ''parse error''))"

section \<open>The orchestrator's data model (garm-provider-common/params)\<close>

datatype InstanceStatus = InstanceRunning | InstanceStopped | InstanceError | InstanceStatusUnknown

datatype AddressType = PublicAddress | PrivateAddress

record Address =
  Address :: string
  Type :: AddressType

text \<open>
  \<open>params.ProviderInstance\<close>. \<open>Addresses\<close> is a Go slice: \<open>None\<close> is the nil
  slice, \<open>Some []\<close> the empty slice that is not nil.
\<close>

record ProviderInstance =
  ProviderID :: string
  Name :: string
  Status :: InstanceStatus
  OSType :: string
  OSArch :: string
  OSName :: string
  OSVersion :: string
  Addresses :: "Address list option"

section \<open>The container engine's data model (docker/api/types, v24)\<close>

text \<open>
  The engine's types as the Docker API declares them. A Go pointer is an \<open>option\<close>:
  \<open>types.ContainerJSON\<close> embeds \<open>*ContainerJSONBase\<close> (which holds \<open>ID\<close>, \<open>Name\<close>
  and \<open>State *ContainerState\<close>) and has \<open>Config *container.Config\<close> and
  \<open>NetworkSettings *NetworkSettings\<close>; \<open>NetworkSettings.Networks\<close> is a
  \<open>map[string]*network.EndpointSettings\<close>. Reading a field through a nil pointer
  panics. A map that the code ranges over is the list of its entries in the order of the
  iteration, which Go leaves open; a nil map has no entries.
\<close>

record ContainerState =
  Running :: bool
  Paused :: bool
  Dead :: bool
  OOMKilled :: bool

record EndpointSettings =
  IPAddress :: string
  GlobalIPv6Address :: string

record NetworkSettings =
  Networks :: "(string \<times> EndpointSettings option) list"

record container_Config =
  Image :: string
  Env :: "string list"
  Labels :: "string \<rightharpoonup> string"

record ContainerJSONBase =
  ID :: string
  Name :: string
  State :: "ContainerState option"

record ContainerJSON =
  ContainerJSONBase :: "ContainerJSONBase option"
  Config :: "container_Config option"
  NetworkSettings :: "NetworkSettings option"

text \<open>\<open>types.Container\<close>, the summary of a container in a listing.\<close>

record Container =
  ID :: string
  Names :: "string list"
  State :: string
  Labels :: "string \<rightharpoonup> string"

record CreateResponse =
  ID :: string

record Mount =
  Type :: string
  Target :: string

record HostConfig =
  Runtime :: string
  NetworkMode :: string
  Privileged :: bool
  Binds :: "string list"
  CgroupnsMode :: string
  Mounts :: "Mount list"

record ImagePullOptions =
  RegistryAuth :: string

record ContainerRemoveOptions =
  Force :: bool
  RemoveVolumes :: bool

text \<open>
  \<open>filters.Args\<close>: a set of values under each key. \<open>filters.NewArgs()\<close> is empty,
  \<open>Add\<close> puts one value under one key.
\<close>

type_synonym Args = "(string \<times> string) set"

definition NewArgs :: Args where
  "NewArgs = {}"

definition Add :: "Args \<Rightarrow> string \<Rightarrow> string \<Rightarrow> Args" where
  "Add args k v = insert (k, v) args"

record ContainerListOptions =
  Filters :: Args
  All :: bool

record StopOptions =
  Timeout :: "int option"

section \<open>The DockerClient interface\<close>

text \<open>
  The interface through which the provider reaches the engine. An implementation has a
  state \<open>'s\<close> of its own; each method takes the state and returns its result with the
  new state. A method that returns a value and an error returns a sum, since the
  provider never reads the value when the error is set; \<open>ImageInspectWithRaw\<close> returns
  only its error, since the provider reads nothing else of it. The result of a
  successful \<open>ImagePull\<close> is the content of the stream, which the provider drains and
  discards. The \<open>context\<close> argument and the arguments that the provider always passes
  as nil (the networking configuration and the platform of \<open>ContainerCreate\<close>) and the
  empty \<open>ContainerStartOptions\<close> are left out.
\<close>

record 's DockerClient =
  ImagePull :: "string \<Rightarrow> ImagePullOptions \<Rightarrow> 's \<Rightarrow> (engine_error + string) \<times> 's"
  ImageInspectWithRaw :: "string \<Rightarrow> 's \<Rightarrow> engine_error option \<times> 's"
  ContainerCreate ::
    "container_Config \<Rightarrow> HostConfig \<Rightarrow> string \<Rightarrow> 's \<Rightarrow> (engine_error + CreateResponse) \<times> 's"
  ContainerStart :: "string \<Rightarrow> 's \<Rightarrow> engine_error option \<times> 's"
  ContainerRemove :: "string \<Rightarrow> ContainerRemoveOptions \<Rightarrow> 's \<Rightarrow> engine_error option \<times> 's"
  ContainerInspect :: "string \<Rightarrow> 's \<Rightarrow> (engine_error + ContainerJSON) \<times> 's"
  ContainerList :: "ContainerListOptions \<Rightarrow> 's \<Rightarrow> (engine_error + Container list) \<times> 's"
  ContainerStop :: "string \<Rightarrow> StopOptions \<Rightarrow> 's \<Rightarrow> engine_error option \<times> 's"

text \<open>What the engine observes: each call with its arguments and what it answered.\<close>

datatype event =
    EvImagePull string ImagePullOptions "engine_error + string"
  | EvImageInspectWithRaw string "engine_error option"
  | EvContainerCreate container_Config HostConfig string "engine_error + CreateResponse"
  | EvContainerStart string "engine_error option"
  | EvContainerRemove string ContainerRemoveOptions "engine_error option"
  | EvContainerInspect string "engine_error + ContainerJSON"
  | EvContainerList ContainerListOptions "engine_error + Container list"
  | EvContainerStop string StopOptions "engine_error option"

fun is_ImagePull :: "event \<Rightarrow> bool" where
  "is_ImagePull (EvImagePull ref opts r) = True"
| "is_ImagePull ev = False"

fun is_ImageInspect :: "event \<Rightarrow> bool" where
  "is_ImageInspect (EvImageInspectWithRaw ref r) = True"
| "is_ImageInspect ev = False"

text \<open>
  The world of a run: the state of the engine behind the client and the events so far.
  \<open>do_call ev m\<close> performs the method \<open>m\<close> and appends the event to the trace.
\<close>

type_synonym 's world = "'s \<times> event list"

definition do_call :: "('r \<Rightarrow> event) \<Rightarrow> ('s \<Rightarrow> 'r \<times> 's) \<Rightarrow> 's world \<Rightarrow> 'r \<times> 's world" where
  "do_call ev m w = (case m (fst w) of (r, s') \<Rightarrow> (r, (s', snd w @ [ev r])))"

section \<open>internal/provider\<close>

record 's Provider =
  ControllerID :: string
  PoolID :: string
  DockerClient :: "'s DockerClient"

text \<open>\<open>dockerConfig\<close>, \<open>dockerAuthEntry\<close> and \<open>registry.AuthConfig\<close>.\<close>

record dockerAuthEntry =
  Auth :: string

record dockerConfig =
  Auths :: "string \<rightharpoonup> dockerAuthEntry"

record AuthConfig =
  Username :: string
  Password :: string

text \<open>
  What the provider takes from the operating system and from Go's libraries, as
  parameters: \<open>url.Parse\<close>, \<open>os.UserHomeDir\<close>, \<open>os.ReadFile\<close>, \<open>json.Unmarshal\<close> into a
  \<open>dockerConfig\<close>, \<open>base64.StdEncoding.DecodeString\<close>, \<open>json.Marshal\<close> of an
  \<open>AuthConfig\<close> and \<open>base64.URLEncoding.EncodeToString\<close>.
\<close>

record Platform =
  url_Parse :: "string \<Rightarrow> error + URL"
  os_UserHomeDir :: "error + string"
  os_ReadFile :: "string \<Rightarrow> error + string"
  json_Unmarshal :: "string \<Rightarrow> error + dockerConfig"
  base64_DecodeString :: "string \<Rightarrow> error + string"
  json_Marshal :: "AuthConfig \<Rightarrow> error + string"
  base64_URLEncodeToString :: "string \<Rightarrow> string"

text \<open>The registry host of an image reference (the block that sets \<open>registryHost\<close>).\<close>

definition registryHost :: "string \<Rightarrow> string" where
  "registryHost imageRef =
     (if Contains imageRef CHR ''/''
      then (let parts = SplitN2 imageRef CHR ''/''
            in if Contains (parts ! 0) CHR ''.'' \<or> Contains (parts ! 0) CHR '':''
               then parts ! 0 else ''docker.io'')
      else ''docker.io'')"

definition getRegistryAuth :: "Platform \<Rightarrow> ProviderConfig \<Rightarrow> string \<Rightarrow> string" where
  "getRegistryAuth sys config imageRef =
     (case (if DockerConfigPath config = []
            then (case os_UserHomeDir sys of
                    Inl err \<Rightarrow> None
                  | Inr home \<Rightarrow> Some (home @ ''/.docker/config.json''))
            else Some (DockerConfigPath config)) of
        None \<Rightarrow> []
      | Some configPath \<Rightarrow>
          (case os_ReadFile sys configPath of
             Inl err \<Rightarrow> []
           | Inr data \<Rightarrow>
               (case json_Unmarshal sys data of
                  Inl err \<Rightarrow> []
                | Inr cfg \<Rightarrow>
                    (case Auths cfg (registryHost imageRef) of
                       None \<Rightarrow> []
                     | Some entry \<Rightarrow>
                         (case base64_DecodeString sys (Auth entry) of
                            Inl err \<Rightarrow> []
                          | Inr decoded \<Rightarrow>
                              (let parts = SplitN2 decoded CHR '':''
                               in if length parts \<noteq> 2 then []
                                  else (case json_Marshal sys
                                               \<lparr>Username = parts ! 0, Password = parts ! 1\<rparr> of
                                          Inl err \<Rightarrow> []
                                        | Inr authJSON \<Rightarrow> base64_URLEncodeToString sys authJSON)))))))"

text \<open>
  The loop of \<open>containerToAddresses\<close> over the networks, with \<open>addrs\<close> as it grows.
  \<open>settings\<close> is a pointer: reading \<open>settings.IPAddress\<close> through nil panics.
\<close>

fun rangeNetworks :: "(string \<times> EndpointSettings option) list \<Rightarrow> Address list \<Rightarrow> error + Address list" where
  "rangeNetworks [] addrs = Inr addrs"
| "rangeNetworks ((name, None) # rest) addrs = Inl NilPointerPanic"
| "rangeNetworks ((name, Some settings) # rest) addrs =
     (let addrs1 = (if IPAddress settings \<noteq> []
                    then addrs @ [\<lparr>Address = IPAddress settings, Type = PrivateAddress\<rparr>]
                    else addrs);
          addrs2 = (if GlobalIPv6Address settings \<noteq> []
                    then addrs1 @ [\<lparr>Address = GlobalIPv6Address settings, Type = PrivateAddress\<rparr>]
                    else addrs1)
      in rangeNetworks rest addrs2)"

definition containerToAddresses :: "ContainerJSON \<Rightarrow> error + Address list" where
  "containerToAddresses c =
     (case NetworkSettings c of
        None \<Rightarrow> Inr []
      | Some ns \<Rightarrow> rangeNetworks (Networks ns) [])"

text \<open>
  \<open>CreateInstance\<close>, in the steps that the source numbers. The log lines are left out.

  Step 1, "Check/Pull Image": \<open>None\<close> when the image is there or was pulled, the
  error that \<open>CreateInstance\<close> returns otherwise.
\<close>

definition resolveImage ::
    "Platform \<Rightarrow> ProviderConfig \<Rightarrow> 's DockerClient \<Rightarrow> string \<Rightarrow> 's world \<Rightarrow> error option \<times> 's world" where
  "resolveImage sys config cli imageRef w0 =
     (case (if \<not> AlwaysPull config
            then (case do_call (EvImageInspectWithRaw imageRef) (ImageInspectWithRaw cli imageRef) w0 of
                    (None, w1) \<Rightarrow> (Inr False, w1)
                  | (Some err, w1) \<Rightarrow>
                      if IsErrNotFound err then (Inr True, w1)
                      else (Inl (Wrap (''failed to inspect image '' @ imageRef) (EngineError err)), w1))
            else (Inr True, w0)) of
        (Inl e, w1) \<Rightarrow> (Some e, w1)
      | (Inr needsPull, w1) \<Rightarrow>
          if needsPull
          then (let authStr = getRegistryAuth sys config imageRef;
                    pullOpts = (if authStr \<noteq> [] then \<lparr>RegistryAuth = authStr\<rparr>
                                else \<lparr>RegistryAuth = []\<rparr>)
                in case do_call (EvImagePull imageRef pullOpts) (ImagePull cli imageRef pullOpts) w1 of
                     (Inl err, w2) \<Rightarrow>
                       (Some (Wrap (''failed to pull image '' @ imageRef) (EngineError err)), w2)
                   | (Inr reader, w2) \<Rightarrow> (None, w2))
          else (None, w1))"

text \<open>
  Steps 2 to 6 follow in \<open>CreateInstance\<close> itself. In the returned struct literal
  \<open>inspect.ID\<close> is read first, through the embedded pointer.
\<close>

definition CreateInstance ::
    "Platform \<Rightarrow> ProviderConfig \<Rightarrow> 's Provider \<Rightarrow> BootstrapInstance \<Rightarrow> 's world
       \<Rightarrow> (error + ProviderInstance) \<times> 's world" where
  "CreateInstance sys config p bootstrapParams w0 =
     (let cli = DockerClient p in
      case resolveImage sys config cli (BootstrapInstance.Image bootstrapParams) w0 of
        (Some e, w2) \<Rightarrow> (Inl e, w2)
      | (None, w2) \<Rightarrow>
       (case GetRunnerEnvs (url_Parse sys) bootstrapParams of
          Inl err \<Rightarrow> (Inl (Wrap ''failed to generate envs'' err), w2)
        | Inr envs \<Rightarrow>
          (let labels = GetContainerLabels (ControllerID p) bootstrapParams;
               containerConfig =
                 \<lparr>container_Config.Image = BootstrapInstance.Image bootstrapParams,
                  Env = envs, container_Config.Labels = labels\<rparr>;
               hostConfig0 =
                 \<lparr>HostConfig.Runtime = GetHostConfigRuntime config,
                  NetworkMode = Network config,
                  HostConfig.Privileged = ProviderConfig.Privileged config,
                  HostConfig.Binds = ProviderConfig.Binds config,
                  CgroupnsMode = [], Mounts = []\<rparr>;
               hostConfig =
                 (if ProviderConfig.Privileged config
                  then hostConfig0\<lparr>CgroupnsMode := ''host'',
                         Mounts := [\<lparr>Mount.Type = ''volume'', Target = ''/var/lib/docker''\<rparr>]\<rparr>
                  else hostConfig0);
               name = BootstrapInstance.Name bootstrapParams
           in case do_call (EvContainerCreate containerConfig hostConfig name)
                     (ContainerCreate cli containerConfig hostConfig name) w2 of
                (Inl err, w3) \<Rightarrow> (Inl (Wrap ''failed to create container'' (EngineError err)), w3)
              | (Inr resp, w3) \<Rightarrow>
              (case do_call (EvContainerStart (CreateResponse.ID resp))
                      (ContainerStart cli (CreateResponse.ID resp)) w3 of
                 (Some err, w4) \<Rightarrow> (Inl (Wrap ''failed to start container'' (EngineError err)), w4)
               | (None, w4) \<Rightarrow>
               (case do_call (EvContainerInspect (CreateResponse.ID resp))
                       (ContainerInspect cli (CreateResponse.ID resp)) w4 of
                  (Inl err, w5) \<Rightarrow>
                    (Inl (Wrap ''failed to inspect container after start'' (EngineError err)), w5)
                | (Inr inspect, w5) \<Rightarrow>
                    (case ContainerJSONBase inspect of
                       None \<Rightarrow> (Inl NilPointerPanic, w5)
                     | Some base \<Rightarrow>
                         (case containerToAddresses inspect of
                            Inl e \<Rightarrow> (Inl e, w5)
                          | Inr addrs \<Rightarrow>
                              (Inr \<lparr>ProviderID = ContainerJSONBase.ID base,
                                    ProviderInstance.Name = name,
                                    Status = InstanceRunning,
                                    ProviderInstance.OSType = BootstrapInstance.OSType bootstrapParams,
                                    ProviderInstance.OSArch = BootstrapInstance.OSArch bootstrapParams,
                                    OSName = ''linux'',
                                    OSVersion = ''unknown'',
                                    Addresses = Some addrs\<rparr>, w5))))))))"

text \<open>\<open>DeleteInstance\<close>: \<open>None\<close> is the nil error.\<close>

definition DeleteInstance ::
    "ProviderConfig \<Rightarrow> 's Provider \<Rightarrow> string \<Rightarrow> 's world \<Rightarrow> error option \<times> 's world" where
  "DeleteInstance config p instance w0 =
     (let opts = \<lparr>Force = True, ContainerRemoveOptions.RemoveVolumes = ProviderConfig.RemoveVolumes config\<rparr>
      in case do_call (EvContainerRemove instance opts)
                (ContainerRemove (DockerClient p) instance opts) w0 of
           (Some err, w1) \<Rightarrow>
             if IsErrNotFound err then (None, w1)
             else (Some (Wrap (''failed to remove container '' @ instance) (EngineError err)), w1)
         | (None, w1) \<Rightarrow> (None, w1))"

text \<open>
  \<open>containerToInstance\<close>. \<open>c.State\<close>, \<open>c.ID\<close> and \<open>c.Name\<close> are read through the
  embedded pointer, the labels through \<open>c.Config\<close>. The fields that the struct literal
  does not set have Go's zero value.
\<close>

definition containerToInstance :: "ContainerJSON \<Rightarrow> error + ProviderInstance" where
  "containerToInstance c =
     (case ContainerJSONBase c of
        None \<Rightarrow> Inl NilPointerPanic
      | Some base \<Rightarrow>
          (let status =
                 (case ContainerJSONBase.State base of
                    None \<Rightarrow> InstanceStatusUnknown
                  | Some st \<Rightarrow>
                      if Running st then InstanceRunning
                      else if Paused st then InstanceStopped
                      else if Dead st \<or> OOMKilled st then InstanceError
                      else InstanceStopped)
           in case Config c of
                None \<Rightarrow> Inl NilPointerPanic
              | Some cfg \<Rightarrow>
                  Inr \<lparr>ProviderID = ContainerJSONBase.ID base,
                       ProviderInstance.Name = ContainerJSONBase.Name base,
                       Status = status,
                       ProviderInstance.OSType = lookup (container_Config.Labels cfg) GarmOSTypeLabel,
                       ProviderInstance.OSArch = lookup (container_Config.Labels cfg) GarmOSArchLabel,
                       OSName = [], OSVersion = [], Addresses = None\<rparr>))"

definition GetInstance ::
    "'s Provider \<Rightarrow> string \<Rightarrow> 's world \<Rightarrow> (error + ProviderInstance) \<times> 's world" where
  "GetInstance p instance w0 =
     (case do_call (EvContainerInspect instance) (ContainerInspect (DockerClient p) instance) w0 of
        (Inl err, w1) \<Rightarrow>
          (Inl (Wrap (''failed to inspect container '' @ instance) (EngineError err)), w1)
      | (Inr json, w1) \<Rightarrow> (containerToInstance json, w1))"

definition containerSummaryToInstance :: "Container \<Rightarrow> ProviderInstance" where
  "containerSummaryToInstance c =
     (let status = (if Container.State c = ''running'' then InstanceRunning
                    else if Container.State c = ''exited'' then InstanceStopped
                    else InstanceStatusUnknown);
          name = (if length (Names c) > 0
                  then (let name = Names c ! 0
                        in if length name > 0 \<and> name ! 0 = CHR ''/'' then drop 1 name else name)
                  else [])
      in \<lparr>ProviderID = Container.ID c,
          ProviderInstance.Name = name,
          Status = status,
          ProviderInstance.OSType = lookup (Container.Labels c) GarmOSTypeLabel,
          ProviderInstance.OSArch = lookup (Container.Labels c) GarmOSArchLabel,
          OSName = [], OSVersion = [], Addresses = None\<rparr>)"

definition ListInstances ::
    "'s Provider \<Rightarrow> string \<Rightarrow> 's world \<Rightarrow> (error + ProviderInstance list) \<times> 's world" where
  "ListInstances p poolID w0 =
     (let filtersArgs0 = Add NewArgs ''label'' (GarmControllerIDLabel @ ''='' @ ControllerID p);
          filtersArgs = (if poolID \<noteq> []
                         then Add filtersArgs0 ''label'' (GarmPoolIDLabel @ ''='' @ poolID)
                         else filtersArgs0);
          opts = \<lparr>Filters = filtersArgs, All = True\<rparr>
      in case do_call (EvContainerList opts) (ContainerList (DockerClient p) opts) w0 of
           (Inl err, w1) \<Rightarrow> (Inl (Wrap ''failed to list containers'' (EngineError err)), w1)
         | (Inr containers, w1) \<Rightarrow> (Inr (map containerSummaryToInstance containers), w1))"



definition Stop :: "'s Provider \<Rightarrow> string \<Rightarrow> bool \<Rightarrow> 's world \<Rightarrow> error option \<times> 's world" where
  "Stop p instance force w0 =
     (let timeout = (if force then 0 else 10);
          stopOptions = \<lparr>Timeout = Some timeout\<rparr>
      in case do_call (EvContainerStop instance stopOptions)
                (ContainerStop (DockerClient p) instance stopOptions) w0 of
           (Some err, w1) \<Rightarrow> (Some (Wrap ''failed to stop container'' (EngineError err)), w1)
         | (None, w1) \<Rightarrow> (None, w1))"

definition Start :: "'s Provider \<Rightarrow> string \<Rightarrow> 's world \<Rightarrow> error option \<times> 's world" where
  "Start p instance w0 =
     (case do_call (EvContainerStart instance) (ContainerStart (DockerClient p) instance) w0 of
        (Some err, w1) \<Rightarrow> (Some (Wrap ''failed to start container'' (EngineError err)), w1)
      | (None, w1) \<Rightarrow> (None, w1))"

section \<open>Notions used to state the properties\<close>


definition reported :: "EndpointSettings list \<Rightarrow> string list" where
  "reported eps = filter (\<lambda>a. a \<noteq> []) (concat (map (\<lambda>s. [IPAddress s, GlobalIPv6Address s]) eps))"

text \<open>
  The engine's side of a listing, as an assumption to state what a listing excludes: a
  label filter \<open>key=value\<close> accepts a container that carries the label \<open>key\<close> with that
  value (a filter without \<open>=\<close>, one that carries the label at all), and an answer
  applies the label filters of a query when every container in it is accepted by each.
\<close>

definition carries_label :: "Container \<Rightarrow> string \<Rightarrow> bool" where
  "carries_label c f =
     (if CHR ''='' \<in> set f
      then Container.Labels c (takeWhile (\<lambda>x. x \<noteq> CHR ''='') f) = Some (tl (dropWhile (\<lambda>x. x \<noteq> CHR ''='') f))
      else Container.Labels c f \<noteq> None)"

definition applies_label_filters :: "ContainerListOptions \<Rightarrow> Container list \<Rightarrow> bool" where
  "applies_label_filters opts cs = (\<forall>c \<in> set cs. \<forall>f. (''label'', f) \<in> Filters opts \<longrightarrow> carries_label c f)"

section \<open>A sample engine, platform and request\<close>

text \<open>
  An engine for the examples. Its state is the list of the containers that exist, by
  identifier. The image inspection answers what it is told to answer, the container
  inspection returns the given value, the container \<open>stuck\<close> cannot be removed, and
  a listing fails when the engine is unreachable.
\<close>

definition sample_container :: "ContainerState option \<Rightarrow> NetworkSettings option \<Rightarrow> ContainerJSON" where
  "sample_container st ns =
     \<lparr>ContainerJSONBase = Some \<lparr>ContainerJSONBase.ID = ''c0ffee'', ContainerJSONBase.Name = ''/runner-1'',
                               ContainerJSONBase.State = st\<rparr>,
      Config = Some \<lparr>container_Config.Image = ''ubuntu:latest'', Env = [],
                     container_Config.Labels = [GarmOSTypeLabel \<mapsto> ''linux'', GarmOSArchLabel \<mapsto> ''amd64'']\<rparr>,
      NetworkSettings = ns\<rparr>"

definition two_networks :: NetworkSettings where
  "two_networks =
     \<lparr>Networks = [(''bridge'', Some \<lparr>IPAddress = ''172.17.0.2'', GlobalIPv6Address = []\<rparr>),
                  (''lab'', Some \<lparr>IPAddress = ''10.0.0.7'', GlobalIPv6Address = ''fd00::7''\<rparr>)]\<rparr>"

definition dangling_network :: NetworkSettings where
  "dangling_network = \<lparr>Networks = [(''bridge'', None)]\<rparr>"

definition state_of :: "bool \<Rightarrow> bool \<Rightarrow> bool \<Rightarrow> bool \<Rightarrow> ContainerState" where
  "state_of r pa d k = \<lparr>Running = r, Paused = pa, Dead = d, OOMKilled = k\<rparr>"

definition summary_of :: "string \<Rightarrow> Container" where
  "summary_of cid = \<lparr>Container.ID = cid, Names = [''/'' @ cid], Container.State = ''exited'',
                     Container.Labels = Map.empty\<rparr>"

definition test_engine :: "engine_error option \<Rightarrow> ContainerJSON \<Rightarrow> (string list) DockerClient" where
  "test_engine imageAnswer inspectAnswer =
     \<lparr>ImagePull = (\<lambda>ref opts s. (Inr ''Pulling from library'', s)),
      ImageInspectWithRaw = (\<lambda>ref s. (imageAnswer, s)),
      ContainerCreate = (\<lambda>c h name s. (Inr \<lparr>CreateResponse.ID = ''c0ffee''\<rparr>, s @ [''c0ffee''])),
      ContainerStart = (\<lambda>cid s. (None, s)),
      ContainerRemove = (\<lambda>cid opts s.
         if cid = ''stuck'' then (Some (ErrOther ''removal already in progress''), s)
         else if cid \<in> set s then (None, removeAll cid s)
         else (Some (ErrNotFound ''No such container''), s)),
      ContainerInspect = (\<lambda>cid s. (Inr inspectAnswer, s)),
      ContainerList = (\<lambda>opts s.
         if s = [''unreachable''] then (Inl (ErrOther ''cannot connect to the daemon''), s)
         else (Inr (map summary_of s), s)),
      ContainerStop = (\<lambda>cid opts s. (None, s))\<rparr>"

definition test_provider :: "(string list) DockerClient \<Rightarrow> (string list) Provider" where
  "test_provider cli = \<lparr>ControllerID = ''ctl-1'', Provider.PoolID = ''pool-1'', DockerClient = cli\<rparr>"

definition test_request :: BootstrapInstance where
  "test_request =
     \<lparr>BootstrapInstance.Name = ''runner-1'', BootstrapInstance.Image = ''ubuntu:latest'',
      RepoURL = ''https://github.com/org/repo'', BootstrapInstance.PoolID = ''pool-1'',
      Flavor = ''default'', BootstrapInstance.OSType = ''linux'', BootstrapInstance.OSArch = ''amd64'',
      BootstrapInstance.Labels = [''l1''], GitHubRunnerGroup = [], MetadataURL = [],
      InstanceToken = [], CallbackURL = []\<rparr>"

definition test_docker_config :: dockerConfig where
  "test_docker_config =
     \<lparr>Auths = [''ghcr.io'' \<mapsto> \<lparr>Auth = ''dXNlcjpwYXNz''\<rparr>,
               ''docker.io'' \<mapsto> \<lparr>Auth = ''dXNlcg==''\<rparr>,
               ''registry.local:5000'' \<mapsto> \<lparr>Auth = ''%%%''\<rparr>]\<rparr>"

definition test_platform :: "(error + string) \<Rightarrow> Platform" where
  "test_platform home =
     \<lparr>url_Parse = github_parse,
      os_UserHomeDir = home,
      os_ReadFile = (\<lambda>path. if path = ''/home/garm/.docker/config.json'' then Inr ''auths''
                             else if path = ''/etc/garm/broken.json'' then Inr ''{''
                             else Inl (LibError ''no such file or directory'')),
      json_Unmarshal = (\<lambda>data. if data = ''auths'' then Inr test_docker_config
                                else Inl (LibError ''unexpected end of JSON input'')),
      base64_DecodeString = (\<lambda>s. if s = ''dXNlcjpwYXNz'' then Inr ''user:pass''
                                  else if s = ''dXNlcg=='' then Inr ''user''
                                  else Inl (LibError ''illegal base64 data'')),
      json_Marshal = (\<lambda>a. Inr (''username='' @ Username a @ '',password='' @ Password a)),
      base64_URLEncodeToString = (\<lambda>s. ''base64url:'' @ s)\<rparr>"

text \<open>The sample engine with a registry that refuses the pull.\<close>

definition pull_denied :: "(string list) DockerClient \<Rightarrow> (string list) DockerClient" where
  "pull_denied cli = cli\<lparr>ImagePull := (\<lambda>ref opts s. (Inl (ErrOther ''pull access denied''), s))\<rparr>"

text \<open>
  Engines whose state is the list of the containers that exist, with their labels: one
  applies the label filters of a listing, the other ignores them and answers every
  container.
\<close>

definition labelled :: "string \<Rightarrow> string \<Rightarrow> string \<Rightarrow> Container" where
  "labelled cid ctl pool =
     \<lparr>Container.ID = cid, Names = [''/runner-'' @ cid], Container.State = ''running'',
      Container.Labels = [GarmControllerIDLabel \<mapsto> ctl, GarmPoolIDLabel \<mapsto> pool]\<rparr>"

definition filtering_engine :: "(Container list) DockerClient" where
  "filtering_engine =
     \<lparr>ImagePull = (\<lambda>ref opts s. (Inr [], s)),
      ImageInspectWithRaw = (\<lambda>ref s. (None, s)),
      ContainerCreate = (\<lambda>c h name s. (Inl (ErrOther ''read-only engine''), s)),
      ContainerStart = (\<lambda>cid s. (None, s)),
      ContainerRemove = (\<lambda>cid opts s. (None, filter (\<lambda>c. Container.ID c \<noteq> cid) s)),
      ContainerInspect = (\<lambda>cid s. (Inl (ErrNotFound ''No such container''), s)),
      ContainerList = (\<lambda>opts s.
         (Inr (filter (\<lambda>c. \<forall>(k, f) \<in> Filters opts. k = ''label'' \<longrightarrow> carries_label c f) s), s)),
      ContainerStop = (\<lambda>cid opts s. (None, s))\<rparr>"

definition unfiltered_engine :: "(Container list) DockerClient" where
  "unfiltered_engine = filtering_engine\<lparr>ContainerList := (\<lambda>opts s. (Inr s, s))\<rparr>"

definition labelled_provider :: "(Container list) DockerClient \<Rightarrow> (Container list) Provider" where
  "labelled_provider cli = \<lparr>ControllerID = ''ctl-1'', Provider.PoolID = ''pool-1'', DockerClient = cli\<rparr>"

section \<open>Unfolding the samples\<close>

lemmas sample_defs =
  test_engine_def test_provider_def test_request_def test_platform_def test_docker_config_def
  sample_container_def two_networks_def dangling_network_def state_of_def summary_of_def
  zero_config_def setDefaults_def

lemmas create_defs =
  CreateInstance_def resolveImage_def do_call_def GetRunnerEnvs_def ExtractGitHubScopeDetails_def
  github_parse_def Trim_def GetHostConfigRuntime_def containerToAddresses_def Let_def

lemmas listing_defs =
  filtering_engine_def unfiltered_engine_def labelled_provider_def labelled_def carries_label_def
  GarmControllerIDLabel_def GarmPoolIDLabel_def GarmOSTypeLabel_def GarmOSArchLabel_def

section \<open>Configuration: the defaults\<close>

lemma setDefaults_RemoveVolumes: "ProviderConfig.RemoveVolumes (setDefaults c)"
  by (simp add: setDefaults_def Let_def)

text \<open>
  C9. Whenever \<open>NewConfig\<close> returns without an error, the configuration it leaves has
  \<open>RemoveVolumes\<close> set, whatever the file (the store) said and whatever the variable
  held before.
\<close>

theorem NewConfig_RemoveVolumes:
  "NewConfig lib path config = (None, config') \<Longrightarrow> ProviderConfig.RemoveVolumes config'"
  by (auto simp: NewConfig_def setDefaults_RemoveVolumes split: sum.splits option.splits if_splits prod.splits)

theorem NewConfig_RemoveVolumes_witness:
  "NewConfig yaml_koanf ''config.yaml'' zero_config
     = (None, zero_config\<lparr>DockerHost := ''unix:///var/run/docker.sock'', ProviderConfig.Runtime := ''sysbox-runc'',
                           Network := ''bridge'', ProviderConfig.RemoveVolumes := True\<rparr>)
   \<and> ProviderConfig.RemoveVolumes (zero_config\<lparr>DockerHost := ''unix:///var/run/docker.sock'', ProviderConfig.Runtime := ''sysbox-runc'',
                           Network := ''bridge'', ProviderConfig.RemoveVolumes := True\<rparr>)"
proof -
  have run: "NewConfig yaml_koanf ''config.yaml'' zero_config
     = (None, zero_config\<lparr>DockerHost := ''unix:///var/run/docker.sock'', ProviderConfig.Runtime := ''sysbox-runc'',
                           Network := ''bridge'', ProviderConfig.RemoveVolumes := True\<rparr>)"
    by (simp add: NewConfig_def yaml_koanf_def zero_config_def setDefaults_def)
  from NewConfig_RemoveVolumes [OF run] run show ?thesis by simp
qed

section \<open>Scope extraction\<close>

lemma Split_not_Nil: "Split s c \<noteq> []"
  by (induction s) (auto split: list.splits)

lemma Trim_Nil: "Trim [] c = []"
  by (simp add: Trim_def)

text \<open>
  C3. A URL with scheme and host and no path at all is accepted: the empty path splits
  into one empty segment, so the first case of the \<open>switch\<close> is taken and the
  organisation is the empty string.
\<close>

theorem ExtractGitHubScopeDetails_no_path:
  "ExtractGitHubScopeDetails github_parse ''https://github.com''
     = Inr \<lparr>BaseURL = ''https://github.com'', Repo = [], Org = [], Enterprise = []\<rparr>"
  by (simp add: ExtractGitHubScopeDetails_def github_parse_def Trim_def)

lemma scope_extraction_segments:
  assumes "gitRepoURL \<noteq> []" and "parse gitRepoURL = Inr u" and "Scheme u \<noteq> []" and "Host u \<noteq> []"
      and "segs = Split (Trim (Path u) CHR ''/'') CHR ''/''"
  shows "segs \<noteq> []"
    and "segs = [a] \<Longrightarrow> ExtractGitHubScopeDetails parse gitRepoURL
           = Inr \<lparr>BaseURL = Scheme u @ ''://'' @ Host u, Repo = [], Org = a, Enterprise = []\<rparr>"
    and "segs = [''enterprises'', b] \<Longrightarrow> ExtractGitHubScopeDetails parse gitRepoURL
           = Inr \<lparr>BaseURL = Scheme u @ ''://'' @ Host u, Repo = [], Org = [], Enterprise = b\<rparr>"
    and "segs = [a, b] \<Longrightarrow> a \<noteq> ''enterprises'' \<Longrightarrow> ExtractGitHubScopeDetails parse gitRepoURL
           = Inr \<lparr>BaseURL = Scheme u @ ''://'' @ Host u, Repo = b, Org = a, Enterprise = []\<rparr>"
    and "length segs > 2 \<Longrightarrow> ExtractGitHubScopeDetails parse gitRepoURL
           = Inl (Errorf ''URL does not match the expected patterns'')"
  using assms by (simp_all add: ExtractGitHubScopeDetails_def Split_not_Nil Let_def)

section \<open>The engine's trace\<close>

lemma do_call_fst: "fst (do_call ev m w) = fst (m (fst w))"
  by (simp add: do_call_def case_prod_beta)

lemma do_call_trace: "snd (snd (do_call ev m w)) = snd w @ [ev (fst (m (fst w)))]"
  by (simp add: do_call_def case_prod_beta)

lemma do_call_eq: "m (fst w) = (r, s') \<Longrightarrow> do_call ev m w = (r, (s', snd w @ [ev r]))"
  by (simp add: do_call_def)

section \<open>Address extraction\<close>

lemma rangeNetworks_Inr:
  "rangeNetworks nets acc = Inr addrs \<Longrightarrow>
     None \<notin> snd ` set nets \<and>
     addrs = acc @ map (\<lambda>a. \<lparr>Address = a, Type = PrivateAddress\<rparr>) (reported (List.map_filter snd nets))"
proof (induction nets acc rule: rangeNetworks.induct)
  case (1 acc)
  then show ?case by (simp add: reported_def List.map_filter_simps)
next
  case (2 name rest acc)
  then show ?case by simp
next
  case (3 name settings rest acc)
  then show ?case
    by (auto simp: reported_def List.map_filter_simps Let_def split: if_splits)
qed

lemma rangeNetworks_total:
  "None \<notin> snd ` set nets \<Longrightarrow> \<exists>addrs. rangeNetworks nets acc = Inr addrs"
  by (induction nets acc rule: rangeNetworks.induct) (auto simp: Let_def)


lemma containerToAddresses_returns:
  "(\<exists>addrs. containerToAddresses c = Inr addrs)
     \<longleftrightarrow> (\<forall>ns. NetworkSettings c = Some ns \<longrightarrow> None \<notin> snd ` set (Networks ns))"
proof (cases "NetworkSettings c")
  case None
  then show ?thesis by (simp add: containerToAddresses_def)
next
  case (Some ns)
  then show ?thesis
    using rangeNetworks_Inr [of "Networks ns" "[]"] rangeNetworks_total [of "Networks ns" "[]"]
    by (auto simp: containerToAddresses_def)
qed

section \<open>CreateInstance\<close>



lemma resolveImage_fatal:
  "\<not> AlwaysPull config \<Longrightarrow> ImageInspectWithRaw cli imageRef (fst w0) = (Some err, s1) \<Longrightarrow>
   \<not> IsErrNotFound err \<Longrightarrow>
     resolveImage sys config cli imageRef w0
        = (Some (Wrap (''failed to inspect image '' @ imageRef) (EngineError err)),
           (s1, snd w0 @ [EvImageInspectWithRaw imageRef (Some err)]))"
  unfolding resolveImage_def do_call_def Let_def
  by (auto split: sum.splits prod.splits)

lemma CreateInstance_stops:
  "resolveImage sys config (DockerClient p) (BootstrapInstance.Image bootstrapParams) w0 = (Some e, w2) \<Longrightarrow>
     CreateInstance sys config p bootstrapParams w0 = (Inl e, w2)"
  by (simp add: CreateInstance_def)

lemma resolveImage_pulls:
  assumes "AlwaysPull config"
      and "ImagePull cli imageRef \<lparr>RegistryAuth = getRegistryAuth sys config imageRef\<rparr> (fst w0) = (r, s1)"
  shows "resolveImage sys config cli imageRef w0
        = ((case r of Inl err \<Rightarrow> Some (Wrap (''failed to pull image '' @ imageRef) (EngineError err))
                    | Inr reader \<Rightarrow> None),
           (s1, snd w0 @ [EvImagePull imageRef \<lparr>RegistryAuth = getRegistryAuth sys config imageRef\<rparr> r]))"
proof -
  have o: "(if getRegistryAuth sys config imageRef \<noteq> []
            then \<lparr>RegistryAuth = getRegistryAuth sys config imageRef\<rparr> else \<lparr>RegistryAuth = []\<rparr>)
           = \<lparr>RegistryAuth = getRegistryAuth sys config imageRef\<rparr>"
    by simp
  show ?thesis
    using assms unfolding resolveImage_def Let_def o
    by (simp add: do_call_def split: sum.splits)
qed

lemma resolveImage_inspects_then_pulls:
  assumes "\<not> AlwaysPull config"
      and "ImageInspectWithRaw cli imageRef (fst w0) = (Some err, s1)"
      and "IsErrNotFound err"
      and "ImagePull cli imageRef \<lparr>RegistryAuth = getRegistryAuth sys config imageRef\<rparr> s1 = (r, s2)"
  shows "resolveImage sys config cli imageRef w0
        = ((case r of Inl err \<Rightarrow> Some (Wrap (''failed to pull image '' @ imageRef) (EngineError err))
                    | Inr reader \<Rightarrow> None),
           (s2, snd w0 @ [EvImageInspectWithRaw imageRef (Some err),
                          EvImagePull imageRef \<lparr>RegistryAuth = getRegistryAuth sys config imageRef\<rparr> r]))"
proof -
  have o: "(if getRegistryAuth sys config imageRef \<noteq> []
            then \<lparr>RegistryAuth = getRegistryAuth sys config imageRef\<rparr> else \<lparr>RegistryAuth = []\<rparr>)
           = \<lparr>RegistryAuth = getRegistryAuth sys config imageRef\<rparr>"
    by simp
  show ?thesis
    using assms unfolding resolveImage_def Let_def o
    by (simp add: do_call_def split: sum.splits)
qed

text \<open>What follows the image: the create call is made in the state the image step left.\<close>

lemma CreateInstance_creates:
  assumes res: "resolveImage sys config (DockerClient p) (BootstrapInstance.Image bootstrapParams) w0 = (None, w2)"
      and envs: "GetRunnerEnvs (url_Parse sys) bootstrapParams = Inr envs"
  shows "\<exists>cc hc a s3 rest.
           ContainerCreate (DockerClient p) cc hc (BootstrapInstance.Name bootstrapParams) (fst w2) = (a, s3)
         \<and> container_Config.Image cc = BootstrapInstance.Image bootstrapParams
         \<and> snd (snd (CreateInstance sys config p bootstrapParams w0))
             = snd w2 @ EvContainerCreate cc hc (BootstrapInstance.Name bootstrapParams) a # rest
         \<and> (\<forall>e \<in> set rest. \<not> is_ImageInspect e \<and> \<not> is_ImagePull e)"
proof -
  let ?cc = "\<lparr>container_Config.Image = BootstrapInstance.Image bootstrapParams,
              Env = envs, container_Config.Labels = GetContainerLabels (ControllerID p) bootstrapParams\<rparr>"
  let ?hc0 = "\<lparr>HostConfig.Runtime = GetHostConfigRuntime config,
                  NetworkMode = Network config,
                  HostConfig.Privileged = ProviderConfig.Privileged config,
                  HostConfig.Binds = ProviderConfig.Binds config,
                  CgroupnsMode = [], Mounts = []\<rparr>"
  let ?hc = "if ProviderConfig.Privileged config
             then ?hc0\<lparr>CgroupnsMode := ''host'',
                       Mounts := [\<lparr>Mount.Type = ''volume'', Target = ''/var/lib/docker''\<rparr>]\<rparr>
             else ?hc0"
  let ?name = "BootstrapInstance.Name bootstrapParams"
  let ?m = "ContainerCreate (DockerClient p) ?cc ?hc ?name (fst w2)"
  let ?tr = "snd (snd (CreateInstance sys config p bootstrapParams w0))"
  let ?rest = "drop (Suc (length (snd w2))) ?tr"
  have "?tr = snd w2 @ EvContainerCreate ?cc ?hc ?name (fst ?m) # ?rest
      \<and> (\<forall>e \<in> set ?rest. \<not> is_ImageInspect e \<and> \<not> is_ImagePull e)"
    using res envs unfolding CreateInstance_def Let_def
    by (simp add: case_prod_beta do_call_trace do_call_fst split: sum.split option.split split del: if_split)
  moreover have "?m = (fst ?m, snd ?m)" by simp
  moreover have "container_Config.Image ?cc = BootstrapInstance.Image bootstrapParams" by simp
  ultimately show ?thesis by blast
qed

lemma CreateInstance_no_envs:
  assumes res: "resolveImage sys config (DockerClient p) (BootstrapInstance.Image bootstrapParams) w0 = (None, w2)"
      and envs: "GetRunnerEnvs (url_Parse sys) bootstrapParams = Inl err"
  shows "CreateInstance sys config p bootstrapParams w0 = (Inl (Wrap ''failed to generate envs'' err), w2)"
  using assms by (simp add: CreateInstance_def)

text \<open>
  C2. With always-pull configured, the first call of \<open>CreateInstance\<close> is the pull of
  the request's image, made in the state the engine is in, with no image inspection
  before it. Without always-pull, when the image inspection answers not-found, the calls
  are the inspection and then the pull, made in the state the inspection left. In both
  cases: when the pull fails, \<open>CreateInstance\<close> returns that error, wrapped, and the
  pull is the last call; when it succeeds and the runner's environment can be built, the
  next call is the create call, made in the state the pull left, and neither a pull nor
  an image inspection follows. When the image inspection fails otherwise,
  \<open>CreateInstance\<close> returns that error, wrapped, and the inspection is the only call.
\<close>

theorem CreateInstance_image_resolution:
  "(AlwaysPull config
      \<and> ImagePull (DockerClient p) (BootstrapInstance.Image bootstrapParams)
            \<lparr>RegistryAuth = getRegistryAuth sys config (BootstrapInstance.Image bootstrapParams)\<rparr> (fst w0) = (r, s1)
      \<longrightarrow>
      ((\<forall>e. r = Inl e \<longrightarrow>
            CreateInstance sys config p bootstrapParams w0
              = (Inl (Wrap (''failed to pull image '' @ BootstrapInstance.Image bootstrapParams) (EngineError e)),
                 (s1, snd w0 @ [EvImagePull (BootstrapInstance.Image bootstrapParams)
                              \<lparr>RegistryAuth = getRegistryAuth sys config (BootstrapInstance.Image bootstrapParams)\<rparr> r])))
       \<and> (\<forall>reader. r = Inr reader \<longrightarrow>
            (\<forall>e. GetRunnerEnvs (url_Parse sys) bootstrapParams = Inl e \<longrightarrow>
               CreateInstance sys config p bootstrapParams w0
                 = (Inl (Wrap ''failed to generate envs'' e),
                    (s1, snd w0 @ [EvImagePull (BootstrapInstance.Image bootstrapParams)
                                 \<lparr>RegistryAuth = getRegistryAuth sys config (BootstrapInstance.Image bootstrapParams)\<rparr> r])))
          \<and> (\<forall>envs. GetRunnerEnvs (url_Parse sys) bootstrapParams = Inr envs \<longrightarrow>
               (\<exists>cc hc a s3 rest.
                   ContainerCreate (DockerClient p) cc hc (BootstrapInstance.Name bootstrapParams) s1 = (a, s3)
                 \<and> container_Config.Image cc = BootstrapInstance.Image bootstrapParams
                 \<and> snd (snd (CreateInstance sys config p bootstrapParams w0))
                     = snd w0 @ EvImagePull (BootstrapInstance.Image bootstrapParams)
                              \<lparr>RegistryAuth = getRegistryAuth sys config (BootstrapInstance.Image bootstrapParams)\<rparr> r
                          # EvContainerCreate cc hc (BootstrapInstance.Name bootstrapParams) a # rest
                 \<and> (\<forall>e \<in> set rest. \<not> is_ImageInspect e \<and> \<not> is_ImagePull e))))))
 \<and> (\<not> AlwaysPull config
      \<and> ImageInspectWithRaw (DockerClient p) (BootstrapInstance.Image bootstrapParams) (fst w0) = (Some err, s1)
      \<and> IsErrNotFound err
      \<and> ImagePull (DockerClient p) (BootstrapInstance.Image bootstrapParams)
            \<lparr>RegistryAuth = getRegistryAuth sys config (BootstrapInstance.Image bootstrapParams)\<rparr> s1 = (r, s2)
      \<longrightarrow>
      ((\<forall>e. r = Inl e \<longrightarrow>
            CreateInstance sys config p bootstrapParams w0
              = (Inl (Wrap (''failed to pull image '' @ BootstrapInstance.Image bootstrapParams) (EngineError e)),
                 (s2, (snd w0 @ [EvImageInspectWithRaw (BootstrapInstance.Image bootstrapParams) (Some err)]) @ [EvImagePull (BootstrapInstance.Image bootstrapParams)
                              \<lparr>RegistryAuth = getRegistryAuth sys config (BootstrapInstance.Image bootstrapParams)\<rparr> r])))
       \<and> (\<forall>reader. r = Inr reader \<longrightarrow>
            (\<forall>e. GetRunnerEnvs (url_Parse sys) bootstrapParams = Inl e \<longrightarrow>
               CreateInstance sys config p bootstrapParams w0
                 = (Inl (Wrap ''failed to generate envs'' e),
                    (s2, (snd w0 @ [EvImageInspectWithRaw (BootstrapInstance.Image bootstrapParams) (Some err)]) @ [EvImagePull (BootstrapInstance.Image bootstrapParams)
                                 \<lparr>RegistryAuth = getRegistryAuth sys config (BootstrapInstance.Image bootstrapParams)\<rparr> r])))
          \<and> (\<forall>envs. GetRunnerEnvs (url_Parse sys) bootstrapParams = Inr envs \<longrightarrow>
               (\<exists>cc hc a s3 rest.
                   ContainerCreate (DockerClient p) cc hc (BootstrapInstance.Name bootstrapParams) s2 = (a, s3)
                 \<and> container_Config.Image cc = BootstrapInstance.Image bootstrapParams
                 \<and> snd (snd (CreateInstance sys config p bootstrapParams w0))
                     = (snd w0 @ [EvImageInspectWithRaw (BootstrapInstance.Image bootstrapParams) (Some err)]) @ EvImagePull (BootstrapInstance.Image bootstrapParams)
                              \<lparr>RegistryAuth = getRegistryAuth sys config (BootstrapInstance.Image bootstrapParams)\<rparr> r
                          # EvContainerCreate cc hc (BootstrapInstance.Name bootstrapParams) a # rest
                 \<and> (\<forall>e \<in> set rest. \<not> is_ImageInspect e \<and> \<not> is_ImagePull e))))))
 \<and> (\<not> AlwaysPull config
      \<and> ImageInspectWithRaw (DockerClient p) (BootstrapInstance.Image bootstrapParams) (fst w0) = (Some err, s1)
      \<and> \<not> IsErrNotFound err \<longrightarrow>
      CreateInstance sys config p bootstrapParams w0
        = (Inl (Wrap (''failed to inspect image '' @ BootstrapInstance.Image bootstrapParams) (EngineError err)),
           (s1, snd w0 @ [EvImageInspectWithRaw (BootstrapInstance.Image bootstrapParams) (Some err)])))"
  (is "(?HA \<longrightarrow> ?CA) \<and> (?HB \<longrightarrow> ?CB) \<and> (?HC \<longrightarrow> ?CC)")
proof -
  let ?image = "BootstrapInstance.Image bootstrapParams"
  let ?opts = "\<lparr>RegistryAuth = getRegistryAuth sys config ?image\<rparr>"
  have after: "((\<forall>e. r = Inl e \<longrightarrow>
            CreateInstance sys config p bootstrapParams w0
              = (Inl (Wrap (''failed to pull image '' @ BootstrapInstance.Image bootstrapParams) (EngineError e)),
                 (s2, tr @ [EvImagePull (BootstrapInstance.Image bootstrapParams)
                              \<lparr>RegistryAuth = getRegistryAuth sys config (BootstrapInstance.Image bootstrapParams)\<rparr> r])))
       \<and> (\<forall>reader. r = Inr reader \<longrightarrow>
            (\<forall>e. GetRunnerEnvs (url_Parse sys) bootstrapParams = Inl e \<longrightarrow>
               CreateInstance sys config p bootstrapParams w0
                 = (Inl (Wrap ''failed to generate envs'' e),
                    (s2, tr @ [EvImagePull (BootstrapInstance.Image bootstrapParams)
                                 \<lparr>RegistryAuth = getRegistryAuth sys config (BootstrapInstance.Image bootstrapParams)\<rparr> r])))
          \<and> (\<forall>envs. GetRunnerEnvs (url_Parse sys) bootstrapParams = Inr envs \<longrightarrow>
               (\<exists>cc hc a s3 rest.
                   ContainerCreate (DockerClient p) cc hc (BootstrapInstance.Name bootstrapParams) s2 = (a, s3)
                 \<and> container_Config.Image cc = BootstrapInstance.Image bootstrapParams
                 \<and> snd (snd (CreateInstance sys config p bootstrapParams w0))
                     = tr @ EvImagePull (BootstrapInstance.Image bootstrapParams)
                              \<lparr>RegistryAuth = getRegistryAuth sys config (BootstrapInstance.Image bootstrapParams)\<rparr> r
                          # EvContainerCreate cc hc (BootstrapInstance.Name bootstrapParams) a # rest
                 \<and> (\<forall>e \<in> set rest. \<not> is_ImageInspect e \<and> \<not> is_ImagePull e)))))"
    if res: "resolveImage sys config (DockerClient p) ?image w0
               = ((case r of Inl err \<Rightarrow> Some (Wrap (''failed to pull image '' @ ?image) (EngineError err))
                           | Inr reader \<Rightarrow> None),
                  (s2, tr @ [EvImagePull ?image ?opts r]))"
    for tr s2 r
  proof (cases r)
    case (Inl e)
    with res CreateInstance_stops [of sys config p bootstrapParams w0
        "Wrap (''failed to pull image '' @ ?image) (EngineError e)" "(s2, tr @ [EvImagePull ?image ?opts r])"]
    show ?thesis by simp
  next
    case (Inr reader)
    with res have none: "resolveImage sys config (DockerClient p) ?image w0
                           = (None, (s2, tr @ [EvImagePull ?image ?opts r]))"
      by simp
    show ?thesis
    proof (cases "GetRunnerEnvs (url_Parse sys) bootstrapParams")
      case (Inl e)
      from CreateInstance_no_envs [OF none Inl] Inl Inr show ?thesis by simp
    next
      case envs: (Inr envs)
      from CreateInstance_creates [OF none envs] envs Inr show ?thesis by simp
    qed
  qed
  have A: "?HA \<longrightarrow> ?CA"
  proof (rule impI)
    assume "?HA"
    then have "resolveImage sys config (DockerClient p) ?image w0
               = ((case r of Inl err \<Rightarrow> Some (Wrap (''failed to pull image '' @ ?image) (EngineError err))
                           | Inr reader \<Rightarrow> None),
                  (s1, snd w0 @ [EvImagePull ?image ?opts r]))"
      by (simp add: resolveImage_pulls)
    from after [OF this] show "?CA" .
  qed
  have B: "?HB \<longrightarrow> ?CB"
  proof (rule impI)
    assume "?HB"
    then have "resolveImage sys config (DockerClient p) ?image w0
               = ((case r of Inl err \<Rightarrow> Some (Wrap (''failed to pull image '' @ ?image) (EngineError err))
                           | Inr reader \<Rightarrow> None),
                  (s2, (snd w0 @ [EvImageInspectWithRaw ?image (Some err)]) @ [EvImagePull ?image ?opts r]))"
      by (simp add: resolveImage_inspects_then_pulls)
    from after [OF this] show "?CB" .
  qed
  have C: "?HC \<longrightarrow> ?CC"
  proof (rule impI)
    assume "?HC"
    then show "?CC"
      using resolveImage_fatal [of config "DockerClient p" ?image w0 err s1 sys]
      by (simp add: CreateInstance_stops)
  qed
  show ?thesis
    by (rule conjI [OF A conjI [OF B C]])
qed

theorem CreateInstance_image_resolution_witness:
  "AlwaysPull ((setDefaults zero_config)\<lparr>AlwaysPull := True\<rparr>)
 \<and> (\<exists>cc hc a s3 rest.
        ContainerCreate (test_engine None (sample_container None None)) cc hc ''runner-1'' [] = (a, s3)
      \<and> container_Config.Image cc = ''ubuntu:latest''
      \<and> snd (snd (CreateInstance (test_platform (Inr ''/home/garm''))
                    ((setDefaults zero_config)\<lparr>AlwaysPull := True\<rparr>)
                    (test_provider (test_engine None (sample_container None None))) test_request ([], [])))
          = EvImagePull ''ubuntu:latest''
              \<lparr>RegistryAuth = getRegistryAuth (test_platform (Inr ''/home/garm''))
                                ((setDefaults zero_config)\<lparr>AlwaysPull := True\<rparr>) ''ubuntu:latest''\<rparr>
              (Inr ''Pulling from library'')
            # EvContainerCreate cc hc ''runner-1'' a # rest
      \<and> (\<forall>e \<in> set rest. \<not> is_ImageInspect e \<and> \<not> is_ImagePull e))
 \<and> CreateInstance (test_platform (Inr ''/home/garm'')) ((setDefaults zero_config)\<lparr>AlwaysPull := True\<rparr>)
      (test_provider (pull_denied (test_engine None (sample_container None None)))) test_request ([], [])
     = (Inl (Wrap ''failed to pull image ubuntu:latest'' (EngineError (ErrOther ''pull access denied''))),
        ([], [EvImagePull ''ubuntu:latest''
                \<lparr>RegistryAuth = getRegistryAuth (test_platform (Inr ''/home/garm''))
                                  ((setDefaults zero_config)\<lparr>AlwaysPull := True\<rparr>) ''ubuntu:latest''\<rparr>
                (Inl (ErrOther ''pull access denied''))]))
 \<and> CreateInstance (test_platform (Inr ''/home/garm'')) ((setDefaults zero_config)\<lparr>AlwaysPull := True\<rparr>)
      (test_provider (test_engine None (sample_container None None))) (test_request\<lparr>RepoURL := []\<rparr>) ([], [])
     = (Inl (Wrap ''failed to generate envs'' (Errorf ''no gitRepoURL supplied'')),
        ([], [EvImagePull ''ubuntu:latest''
                \<lparr>RegistryAuth = getRegistryAuth (test_platform (Inr ''/home/garm''))
                                  ((setDefaults zero_config)\<lparr>AlwaysPull := True\<rparr>) ''ubuntu:latest''\<rparr>
                (Inr ''Pulling from library'')]))
 \<and> \<not> AlwaysPull (setDefaults zero_config)
 \<and> (\<exists>cc hc a s3 rest.
        ContainerCreate (test_engine (Some (ErrNotFound ''No such image'')) (sample_container None None))
          cc hc ''runner-1'' [] = (a, s3)
      \<and> container_Config.Image cc = ''ubuntu:latest''
      \<and> snd (snd (CreateInstance (test_platform (Inr ''/home/garm'')) (setDefaults zero_config)
                    (test_provider (test_engine (Some (ErrNotFound ''No such image'')) (sample_container None None)))
                    test_request ([], [])))
          = EvImageInspectWithRaw ''ubuntu:latest'' (Some (ErrNotFound ''No such image''))
            # EvImagePull ''ubuntu:latest''
                \<lparr>RegistryAuth = getRegistryAuth (test_platform (Inr ''/home/garm''))
                                  (setDefaults zero_config) ''ubuntu:latest''\<rparr>
                (Inr ''Pulling from library'')
            # EvContainerCreate cc hc ''runner-1'' a # rest
      \<and> (\<forall>e \<in> set rest. \<not> is_ImageInspect e \<and> \<not> is_ImagePull e))
 \<and> CreateInstance (test_platform (Inr ''/home/garm'')) (setDefaults zero_config)
      (test_provider (test_engine (Some (ErrOther ''daemon unreachable'')) (sample_container None None)))
      test_request ([], [])
     = (Inl (Wrap ''failed to inspect image ubuntu:latest'' (EngineError (ErrOther ''daemon unreachable''))),
        ([], [EvImageInspectWithRaw ''ubuntu:latest'' (Some (ErrOther ''daemon unreachable''))]))"
proof -
  let ?sys = "test_platform (Inr ''/home/garm'')"
  let ?always = "(setDefaults zero_config)\<lparr>AlwaysPull := True\<rparr>"
  let ?e = "\<lambda>a. test_engine a (sample_container None None)"
  let ?w0 = "([], []) :: string list world"
  have a: "AlwaysPull ?always"
    by (simp add: sample_defs)
  have n: "\<not> AlwaysPull (setDefaults zero_config)"
    by (simp add: sample_defs)
  have img: "BootstrapInstance.Image test_request = ''ubuntu:latest''"
    and name: "BootstrapInstance.Name test_request = ''runner-1''"
    by (simp_all add: test_request_def)
  have cli: "DockerClient (test_provider c) = c" for c
    by (simp add: test_provider_def)
  have i: "ImageInspectWithRaw (?e (Some e)) ref s = (Some e, s)" for e ref s
    by (simp add: test_engine_def)
  have pull: "ImagePull (?e x) ref opts s = (Inr ''Pulling from library'', s)" for x ref opts s
    by (simp add: test_engine_def)
  have deny: "ImagePull (pull_denied (?e x)) ref opts s = (Inl (ErrOther ''pull access denied''), s)"
    for x ref opts s
    by (simp add: pull_denied_def)
  have envs: "\<exists>envs. GetRunnerEnvs (url_Parse ?sys) test_request = Inr envs"
    by (simp add: GetRunnerEnvs_def ExtractGitHubScopeDetails_def github_parse_def Trim_def
          test_platform_def test_request_def)
  note t = CreateInstance_image_resolution
  have A: "\<exists>cc hc a s3 rest.
        ContainerCreate (?e None) cc hc ''runner-1'' [] = (a, s3)
      \<and> container_Config.Image cc = ''ubuntu:latest''
      \<and> snd (snd (CreateInstance ?sys ?always (test_provider (?e None)) test_request ?w0))
          = EvImagePull ''ubuntu:latest'' \<lparr>RegistryAuth = getRegistryAuth ?sys ?always ''ubuntu:latest''\<rparr>
              (Inr ''Pulling from library'')
            # EvContainerCreate cc hc ''runner-1'' a # rest
      \<and> (\<forall>e \<in> set rest. \<not> is_ImageInspect e \<and> \<not> is_ImagePull e)"
    using a envs
          t [where config = ?always and sys = ?sys and p = "test_provider (?e None)"
               and bootstrapParams = test_request and ?w0.0 = ?w0
               and r = "Inr ''Pulling from library''" and ?s1.0 = "[]", THEN conjunct1]
    by (simp add: img name cli pull)
  have A': "CreateInstance ?sys ?always (test_provider (pull_denied (?e None))) test_request ?w0
     = (Inl (Wrap ''failed to pull image ubuntu:latest'' (EngineError (ErrOther ''pull access denied''))),
        ([], [EvImagePull ''ubuntu:latest'' \<lparr>RegistryAuth = getRegistryAuth ?sys ?always ''ubuntu:latest''\<rparr>
                (Inl (ErrOther ''pull access denied''))]))"
    using a
          t [where config = ?always and sys = ?sys and p = "test_provider (pull_denied (?e None))"
               and bootstrapParams = test_request and ?w0.0 = ?w0
               and r = "Inl (ErrOther ''pull access denied'')" and ?s1.0 = "[]", THEN conjunct1]
    by (simp add: img name cli deny)
  have A'': "CreateInstance ?sys ?always (test_provider (?e None)) (test_request\<lparr>RepoURL := []\<rparr>) ?w0
     = (Inl (Wrap ''failed to generate envs'' (Errorf ''no gitRepoURL supplied'')),
        ([], [EvImagePull ''ubuntu:latest'' \<lparr>RegistryAuth = getRegistryAuth ?sys ?always ''ubuntu:latest''\<rparr>
                (Inr ''Pulling from library'')]))"
    using a
          t [where config = ?always and sys = ?sys and p = "test_provider (?e None)"
               and bootstrapParams = "test_request\<lparr>RepoURL := []\<rparr>" and ?w0.0 = ?w0
               and r = "Inr ''Pulling from library''" and ?s1.0 = "[]", THEN conjunct1]
    by (simp add: test_request_def cli pull GetRunnerEnvs_def ExtractGitHubScopeDetails_def)
  have B: "\<exists>cc hc a s3 rest.
        ContainerCreate (?e (Some (ErrNotFound ''No such image''))) cc hc ''runner-1'' [] = (a, s3)
      \<and> container_Config.Image cc = ''ubuntu:latest''
      \<and> snd (snd (CreateInstance ?sys (setDefaults zero_config)
                    (test_provider (?e (Some (ErrNotFound ''No such image'')))) test_request ?w0))
          = EvImageInspectWithRaw ''ubuntu:latest'' (Some (ErrNotFound ''No such image''))
            # EvImagePull ''ubuntu:latest''
                \<lparr>RegistryAuth = getRegistryAuth ?sys (setDefaults zero_config) ''ubuntu:latest''\<rparr>
                (Inr ''Pulling from library'')
            # EvContainerCreate cc hc ''runner-1'' a # rest
      \<and> (\<forall>e \<in> set rest. \<not> is_ImageInspect e \<and> \<not> is_ImagePull e)"
    using n envs
          t [where config = "setDefaults zero_config" and sys = ?sys
               and p = "test_provider (?e (Some (ErrNotFound ''No such image'')))"
               and bootstrapParams = test_request and ?w0.0 = ?w0
               and err = "ErrNotFound ''No such image''" and ?s1.0 = "[]"
               and r = "Inr ''Pulling from library''" and ?s2.0 = "[]", THEN conjunct2, THEN conjunct1]
    by (simp add: img name cli pull i)
  have C: "CreateInstance ?sys (setDefaults zero_config)
      (test_provider (?e (Some (ErrOther ''daemon unreachable'')))) test_request ?w0
     = (Inl (Wrap ''failed to inspect image ubuntu:latest'' (EngineError (ErrOther ''daemon unreachable''))),
        ([], [EvImageInspectWithRaw ''ubuntu:latest'' (Some (ErrOther ''daemon unreachable''))]))"
    using n
          t [where config = "setDefaults zero_config" and sys = ?sys
               and p = "test_provider (?e (Some (ErrOther ''daemon unreachable'')))"
               and bootstrapParams = test_request and ?w0.0 = ?w0
               and err = "ErrOther ''daemon unreachable''" and ?s1.0 = "[]", THEN conjunct2, THEN conjunct2]
    by (simp add: img name cli i)
  from a n A A' A'' B C show ?thesis
    by (intro conjI)
qed

section \<open>GetInstance\<close>

text \<open>
  C4, as the code has it. For every container that the engine's inspection returns with
  its base part and its configuration, \<open>GetInstance\<close> returns an instance whose status
  is: unknown when there is no state; else running when the state is running; else
  stopped when it is paused; else error when it is dead or was killed for lack of
  memory; else stopped. For an answer without its base part or without its
  configuration it panics.
\<close>

theorem GetInstance_status:
  assumes "ContainerInspect (DockerClient p) instance (fst w0) = (Inr c, s1)"
  shows "snd (GetInstance p instance w0) = (s1, snd w0 @ [EvContainerInspect instance (Inr c)])
      \<and> (ContainerJSONBase c = None \<or> Config c = None
            \<longrightarrow> fst (GetInstance p instance w0) = Inl NilPointerPanic)
      \<and> (\<forall>base cfg. ContainerJSONBase c = Some base \<and> Config c = Some cfg \<longrightarrow>
            (\<exists>inst. fst (GetInstance p instance w0) = Inr inst
               \<and> (ContainerJSONBase.State base = None \<longrightarrow> Status inst = InstanceStatusUnknown)
               \<and> (\<forall>st. ContainerJSONBase.State base = Some st \<longrightarrow>
                     (Running st \<longrightarrow> Status inst = InstanceRunning)
                   \<and> (\<not> Running st \<and> Paused st \<longrightarrow> Status inst = InstanceStopped)
                   \<and> (\<not> Running st \<and> \<not> Paused st \<and> (Dead st \<or> OOMKilled st)
                         \<longrightarrow> Status inst = InstanceError)
                   \<and> (\<not> Running st \<and> \<not> Paused st \<and> \<not> Dead st \<and> \<not> OOMKilled st
                         \<longrightarrow> Status inst = InstanceStopped))))"
  using assms
  by (auto simp: GetInstance_def do_call_eq containerToInstance_def split: option.splits)

theorem GetInstance_status_witness:
  "(\<exists>inst. fst (GetInstance (test_provider (test_engine None (sample_container (Some (state_of False False False True)) None)))
                 ''c0ffee'' ([''c0ffee''], [])) = Inr inst
        \<and> Status inst = InstanceError)
 \<and> (\<exists>inst. fst (GetInstance (test_provider (test_engine None (sample_container (Some (state_of False False True False)) None)))
                 ''c0ffee'' ([''c0ffee''], [])) = Inr inst
        \<and> Status inst = InstanceError)
 \<and> (\<exists>inst. fst (GetInstance (test_provider (test_engine None (sample_container (Some (state_of False True True False)) None)))
                 ''c0ffee'' ([''c0ffee''], [])) = Inr inst
        \<and> Status inst = InstanceStopped)
 \<and> (\<exists>inst. fst (GetInstance (test_provider (test_engine None (sample_container (Some (state_of True False False False)) None)))
                 ''c0ffee'' ([''c0ffee''], [])) = Inr inst
        \<and> Status inst = InstanceRunning)
 \<and> (\<exists>inst. fst (GetInstance (test_provider (test_engine None (sample_container (Some (state_of False False False False)) None)))
                 ''c0ffee'' ([''c0ffee''], [])) = Inr inst
        \<and> Status inst = InstanceStopped)
 \<and> (\<exists>inst. fst (GetInstance (test_provider (test_engine None (sample_container None None)))
                 ''c0ffee'' ([''c0ffee''], [])) = Inr inst
        \<and> Status inst = InstanceStatusUnknown)"
proof -
  have i: "ContainerInspect (DockerClient (test_provider (test_engine None c))) ''c0ffee''
             (fst (([''c0ffee''], []) :: string list world)) = (Inr c, [''c0ffee''])" for c
    by (simp add: test_provider_def test_engine_def)
  have b: "ContainerJSONBase (sample_container st ns)
             = Some \<lparr>ContainerJSONBase.ID = ''c0ffee'', ContainerJSONBase.Name = ''/runner-1'',
                      ContainerJSONBase.State = st\<rparr>" for st ns
    by (simp add: sample_container_def)
  have c: "Config (sample_container st ns)
             = Some \<lparr>container_Config.Image = ''ubuntu:latest'', Env = [],
                     container_Config.Labels = [GarmOSTypeLabel \<mapsto> ''linux'', GarmOSArchLabel \<mapsto> ''amd64'']\<rparr>" for st ns
    by (simp add: sample_container_def)
  note t = GetInstance_status [OF i, THEN conjunct2, THEN conjunct2, rule_format, OF conjI, OF b c]
  show ?thesis
    using t [of "Some (state_of False False False True)" None]
          t [of "Some (state_of False False True False)" None]
          t [of "Some (state_of False True True False)" None]
          t [of "Some (state_of True False False False)" None]
          t [of "Some (state_of False False False False)" None]
          t [of None None]
    by (simp add: state_of_def)
qed

text \<open>
  C4, as it is stated, fails: an inspected container with no state information and no
  configuration does not map to unknown, \<open>GetInstance\<close> panics on it, as it does on an
  answer without its base part.
\<close>

theorem GetInstance_nil_config:
  "fst (GetInstance (test_provider (test_engine None
          \<lparr>ContainerJSONBase = Some \<lparr>ContainerJSONBase.ID = ''c0ffee'', ContainerJSONBase.Name = ''/runner-1'',
                                     ContainerJSONBase.State = None\<rparr>,
           Config = None, NetworkSettings = None\<rparr>))
        ''c0ffee'' ([''c0ffee''], []))
     = Inl NilPointerPanic
 \<and> fst (GetInstance (test_provider (test_engine None
          \<lparr>ContainerJSONBase = None, Config = None, NetworkSettings = None\<rparr>))
        ''c0ffee'' ([''c0ffee''], []))
     = Inl NilPointerPanic"
  by (simp add: GetInstance_def do_call_def containerToInstance_def test_provider_def test_engine_def)

section \<open>DeleteInstance\<close>

text \<open>
  C6. \<open>DeleteInstance\<close> issues one forced remove call. It returns no error when the
  engine removes the container and when the engine answers not-found, and the engine's
  error, wrapped, for every other answer.
\<close>

theorem DeleteInstance_not_found:
  assumes "ContainerRemove (DockerClient p) instance
             \<lparr>Force = True, ContainerRemoveOptions.RemoveVolumes = ProviderConfig.RemoveVolumes config\<rparr> (fst w0)
           = (r, s1)"
  shows "(r = None \<longrightarrow> fst (DeleteInstance config p instance w0) = None)
       \<and> (\<forall>err. r = Some err \<and> IsErrNotFound err \<longrightarrow> fst (DeleteInstance config p instance w0) = None)
       \<and> (\<forall>err. r = Some err \<and> \<not> IsErrNotFound err \<longrightarrow>
             fst (DeleteInstance config p instance w0)
               = Some (Wrap (''failed to remove container '' @ instance) (EngineError err)))
       \<and> snd (DeleteInstance config p instance w0)
           = (s1, snd w0 @ [EvContainerRemove instance
                \<lparr>Force = True, ContainerRemoveOptions.RemoveVolumes = ProviderConfig.RemoveVolumes config\<rparr> r])"
  using assms by (auto simp: DeleteInstance_def do_call_eq Let_def split: option.splits)

theorem DeleteInstance_not_found_witness:
  "fst (DeleteInstance (setDefaults zero_config) (test_provider (test_engine None (sample_container None None)))
          ''c0ffee'' ([''c0ffee''], [])) = None
 \<and> snd (DeleteInstance (setDefaults zero_config) (test_provider (test_engine None (sample_container None None)))
          ''c0ffee'' ([''c0ffee''], []))
      = ([], [EvContainerRemove ''c0ffee'' \<lparr>Force = True, ContainerRemoveOptions.RemoveVolumes = True\<rparr> None])
 \<and> fst (DeleteInstance (setDefaults zero_config) (test_provider (test_engine None (sample_container None None)))
          ''c0ffee'' ([], [])) = None
 \<and> fst (DeleteInstance (setDefaults zero_config) (test_provider (test_engine None (sample_container None None)))
          ''stuck'' ([''stuck''], []))
      = Some (Wrap ''failed to remove container stuck'' (EngineError (ErrOther ''removal already in progress'')))"
proof -
  let ?p = "test_provider (test_engine None (sample_container None None))"
  let ?o = "\<lparr>Force = True, ContainerRemoveOptions.RemoveVolumes = ProviderConfig.RemoveVolumes (setDefaults zero_config)\<rparr>"
  have present: "ContainerRemove (DockerClient ?p) ''c0ffee'' ?o (fst ([''c0ffee''], [])) = (None, [])"
    by (simp add: test_provider_def test_engine_def)
  have gone: "ContainerRemove (DockerClient ?p) ''c0ffee'' ?o (fst ([], []))
                = (Some (ErrNotFound ''No such container''), [])"
    by (simp add: test_provider_def test_engine_def)
  have stuck: "ContainerRemove (DockerClient ?p) ''stuck'' ?o (fst ([''stuck''], []))
                = (Some (ErrOther ''removal already in progress''), [''stuck''])"
    by (simp add: test_provider_def test_engine_def)
  show ?thesis
    using DeleteInstance_not_found [OF present] DeleteInstance_not_found [OF gone]
          DeleteInstance_not_found [OF stuck]
    by (simp add: setDefaults_RemoveVolumes)
qed

section \<open>ListInstances\<close>

text \<open>
  C5, as the code has it. \<open>ListInstances\<close> issues one list call, over all containers
  (stopped ones too), whose label filters are the controller ID and, exactly when the
  pool ID is not empty, the pool ID. It returns the engine's error, wrapped, or one
  instance for each container that the engine returned, in order: its status is running
  for the state \<open>running\<close>, stopped for \<open>exited\<close> and unknown for anything else, and
  its name is the first reported name without its leading slash. It excludes nothing
  itself: when the engine's answer applies the label filters of the query, every
  container in it carries the controller ID and, for a pool ID that is not empty, the
  pool ID.
\<close>

theorem ListInstances_query:
  assumes "opts = \<lparr>Filters = {(''label'', ''garm.runner/controller-id='' @ ControllerID p)}
                        \<union> (if poolID = [] then {} else {(''label'', ''garm.runner/pool-id='' @ poolID)}),
                   All = True\<rparr>"
      and "ContainerList (DockerClient p) opts (fst w0) = (r, s1)"
  shows "snd (ListInstances p poolID w0) = (s1, snd w0 @ [EvContainerList opts r])
       \<and> (\<forall>err. r = Inl err \<longrightarrow>
             fst (ListInstances p poolID w0) = Inl (Wrap ''failed to list containers'' (EngineError err)))
       \<and> (\<forall>containers. r = Inr containers \<longrightarrow>
             (\<exists>instances. fst (ListInstances p poolID w0) = Inr instances
                \<and> length instances = length containers
                \<and> (\<forall>i < length containers.
                      ProviderID (instances ! i) = Container.ID (containers ! i)
                    \<and> Status (instances ! i) =
                        (if Container.State (containers ! i) = ''running'' then InstanceRunning
                         else if Container.State (containers ! i) = ''exited'' then InstanceStopped
                         else InstanceStatusUnknown)
                    \<and> ProviderInstance.Name (instances ! i) =
                        (case Names (containers ! i) of
                           [] \<Rightarrow> []
                         | n # ns \<Rightarrow> (case n of [] \<Rightarrow> [] | ch # rest \<Rightarrow> if ch = CHR ''/'' then rest else n))))
                \<and> (applies_label_filters opts containers \<longrightarrow>
                      (\<forall>i < length containers.
                          Container.Labels (containers ! i) GarmControllerIDLabel = Some (ControllerID p)
                        \<and> (poolID \<noteq> [] \<longrightarrow>
                              Container.Labels (containers ! i) GarmPoolIDLabel = Some poolID))))"
proof -
  have o: "\<lparr>Filters = (if poolID \<noteq> []
                        then Add (Add NewArgs ''label'' (GarmControllerIDLabel @ ''='' @ ControllerID p))
                               ''label'' (GarmPoolIDLabel @ ''='' @ poolID)
                        else Add NewArgs ''label'' (GarmControllerIDLabel @ ''='' @ ControllerID p)),
             All = True\<rparr> = opts"
    by (auto simp: assms(1) Add_def NewArgs_def GarmControllerIDLabel_def GarmPoolIDLabel_def)
  have n: "ProviderInstance.Name (containerSummaryToInstance c) =
             (case Names c of [] \<Rightarrow> []
              | n # ns \<Rightarrow> (case n of [] \<Rightarrow> [] | ch # rest \<Rightarrow> if ch = CHR ''/'' then rest else n))" for c
    by (simp add: containerSummaryToInstance_def Let_def split: list.splits)
  have s: "Status (containerSummaryToInstance c) =
             (if Container.State c = ''running'' then InstanceRunning
              else if Container.State c = ''exited'' then InstanceStopped
              else InstanceStatusUnknown)" for c
    by (simp add: containerSummaryToInstance_def Let_def)
  have i: "ProviderID (containerSummaryToInstance c) = Container.ID c" for c
    by (simp add: containerSummaryToInstance_def Let_def)
  have run: "ListInstances p poolID w0 =
      (case r of Inl err \<Rightarrow> Inl (Wrap ''failed to list containers'' (EngineError err))
               | Inr containers \<Rightarrow> Inr (map containerSummaryToInstance containers),
       (s1, snd w0 @ [EvContainerList opts r]))"
    unfolding ListInstances_def Let_def o
    using assms(2) by (simp add: do_call_def split: sum.splits)
  have f: "Container.Labels c GarmControllerIDLabel = Some (ControllerID p)
         \<and> (poolID \<noteq> [] \<longrightarrow> Container.Labels c GarmPoolIDLabel = Some poolID)"
    if "applies_label_filters opts containers" and "c \<in> set containers" for containers c
  proof -
    from that have c: "\<And>f. (''label'', f) \<in> Filters opts \<Longrightarrow> carries_label c f"
      by (auto simp: applies_label_filters_def)
    have "carries_label c (''garm.runner/controller-id='' @ ControllerID p)"
      by (rule c) (simp add: assms(1))
    moreover have "poolID \<noteq> [] \<Longrightarrow> carries_label c (''garm.runner/pool-id='' @ poolID)"
      by (rule c) (simp add: assms(1))
    ultimately show ?thesis
      by (simp add: carries_label_def GarmControllerIDLabel_def GarmPoolIDLabel_def)
  qed
  show ?thesis
    using f by (simp add: run n s i)
qed

theorem ListInstances_query_witness:
  "ListInstances (labelled_provider filtering_engine) ''pool-1''
      ([labelled ''a'' ''ctl-1'' ''pool-1'', labelled ''b'' ''ctl-1'' ''pool-2'',
        labelled ''c'' ''ctl-2'' ''pool-1''], [])
     = (Inr [\<lparr>ProviderID = ''a'', ProviderInstance.Name = ''runner-a'', Status = InstanceRunning,
               ProviderInstance.OSType = [], ProviderInstance.OSArch = [], OSName = [], OSVersion = [],
               Addresses = None\<rparr>],
        ([labelled ''a'' ''ctl-1'' ''pool-1'', labelled ''b'' ''ctl-1'' ''pool-2'',
          labelled ''c'' ''ctl-2'' ''pool-1''],
         [EvContainerList
            \<lparr>Filters = {(''label'', ''garm.runner/controller-id=ctl-1''), (''label'', ''garm.runner/pool-id=pool-1'')},
             All = True\<rparr>
            (Inr [labelled ''a'' ''ctl-1'' ''pool-1''])]))
 \<and> applies_label_filters
       \<lparr>Filters = {(''label'', ''garm.runner/controller-id=ctl-1''), (''label'', ''garm.runner/pool-id=pool-1'')},
        All = True\<rparr>
       [labelled ''a'' ''ctl-1'' ''pool-1'']
 \<and> Container.Labels (labelled ''a'' ''ctl-1'' ''pool-1'') GarmControllerIDLabel = Some ''ctl-1''
 \<and> Container.Labels (labelled ''a'' ''ctl-1'' ''pool-1'') GarmPoolIDLabel = Some ''pool-1''
 \<and> fst (ListInstances (labelled_provider filtering_engine) []
      ([labelled ''a'' ''ctl-1'' ''pool-1'', labelled ''b'' ''ctl-1'' ''pool-2'',
        labelled ''c'' ''ctl-2'' ''pool-1''], []))
     = Inr [\<lparr>ProviderID = ''a'', ProviderInstance.Name = ''runner-a'', Status = InstanceRunning,
               ProviderInstance.OSType = [], ProviderInstance.OSArch = [], OSName = [], OSVersion = [],
               Addresses = None\<rparr>,
            \<lparr>ProviderID = ''b'', ProviderInstance.Name = ''runner-b'', Status = InstanceRunning,
               ProviderInstance.OSType = [], ProviderInstance.OSArch = [], OSName = [], OSVersion = [],
               Addresses = None\<rparr>]"
proof -
  let ?p = "labelled_provider filtering_engine"
  let ?a = "labelled ''a'' ''ctl-1'' ''pool-1''"
  let ?store = "[?a, labelled ''b'' ''ctl-1'' ''pool-2'', labelled ''c'' ''ctl-2'' ''pool-1'']"
  let ?w0 = "(?store, []) :: Container list world"
  let ?opts = "\<lambda>poolID. \<lparr>Filters = {(''label'', ''garm.runner/controller-id='' @ ControllerID ?p)}
                        \<union> (if poolID = [] then {} else {(''label'', ''garm.runner/pool-id='' @ poolID)}),
                   All = True\<rparr>"
  have o: "?opts ''pool-1''
             = \<lparr>Filters = {(''label'', ''garm.runner/controller-id=ctl-1''),
                           (''label'', ''garm.runner/pool-id=pool-1'')}, All = True\<rparr>"
    by (simp add: labelled_provider_def insert_commute)
  have l: "ContainerList (DockerClient ?p) (?opts ''pool-1'') (fst ?w0) = (Inr [?a], ?store)"
    by (simp add: listing_defs)
  have ap: "applies_label_filters (?opts ''pool-1'') [?a]"
    by (simp add: applies_label_filters_def listing_defs)
  note t = ListInstances_query [where p = ?p and poolID = "''pool-1''" and ?w0.0 = ?w0, OF refl l]
  have 1: "snd (ListInstances ?p ''pool-1'' ?w0)
             = (?store, [EvContainerList
                           \<lparr>Filters = {(''label'', ''garm.runner/controller-id=ctl-1''),
                                       (''label'', ''garm.runner/pool-id=pool-1'')}, All = True\<rparr>
                           (Inr [?a])])"
    using t unfolding o by simp
  have ap': "applies_label_filters
       \<lparr>Filters = {(''label'', ''garm.runner/controller-id=ctl-1''), (''label'', ''garm.runner/pool-id=pool-1'')},
        All = True\<rparr> [?a]"
    using ap unfolding o .
  have 2: "Container.Labels ?a GarmControllerIDLabel = Some ''ctl-1''
         \<and> Container.Labels ?a GarmPoolIDLabel = Some ''pool-1''"
    using t ap by (simp add: labelled_provider_def)
  have 3: "fst (ListInstances ?p ''pool-1'' ?w0)
     = Inr [\<lparr>ProviderID = ''a'', ProviderInstance.Name = ''runner-a'', Status = InstanceRunning,
               ProviderInstance.OSType = [], ProviderInstance.OSArch = [], OSName = [], OSVersion = [],
               Addresses = None\<rparr>]"
    by (simp add: ListInstances_def do_call_def Add_def NewArgs_def listing_defs
          containerSummaryToInstance_def lookup_def Let_def)
  have 4: "fst (ListInstances ?p [] ?w0)
     = Inr [\<lparr>ProviderID = ''a'', ProviderInstance.Name = ''runner-a'', Status = InstanceRunning,
               ProviderInstance.OSType = [], ProviderInstance.OSArch = [], OSName = [], OSVersion = [],
               Addresses = None\<rparr>,
            \<lparr>ProviderID = ''b'', ProviderInstance.Name = ''runner-b'', Status = InstanceRunning,
               ProviderInstance.OSType = [], ProviderInstance.OSArch = [], OSName = [], OSVersion = [],
               Addresses = None\<rparr>]"
    by (simp add: ListInstances_def do_call_def Add_def NewArgs_def listing_defs
          containerSummaryToInstance_def lookup_def Let_def)
  have 5: "ListInstances ?p ''pool-1'' ?w0
     = (Inr [\<lparr>ProviderID = ''a'', ProviderInstance.Name = ''runner-a'', Status = InstanceRunning,
               ProviderInstance.OSType = [], ProviderInstance.OSArch = [], OSName = [], OSVersion = [],
               Addresses = None\<rparr>],
        (?store, [EvContainerList
                           \<lparr>Filters = {(''label'', ''garm.runner/controller-id=ctl-1''),
                                       (''label'', ''garm.runner/pool-id=pool-1'')}, All = True\<rparr>
                           (Inr [?a])]))"
    using 1 3 by (metis prod.collapse)
  from 5 ap' 2 4 show ?thesis
    by (intro conjI) simp_all
qed

text \<open>
  C5, as it is stated, fails: \<open>ListInstances\<close> does not read the labels of what the
  engine answers. A container labelled for another controller and another pool, answered
  by an engine that ignores the filters, is returned.
\<close>

theorem ListInstances_foreign_container:
  "Container.Labels (labelled ''c'' ''ctl-2'' ''pool-2'') GarmControllerIDLabel = Some ''ctl-2''
 \<and> Container.Labels (labelled ''c'' ''ctl-2'' ''pool-2'') GarmPoolIDLabel = Some ''pool-2''
 \<and> ControllerID (labelled_provider unfiltered_engine) = ''ctl-1''
 \<and> ListInstances (labelled_provider unfiltered_engine) ''pool-1'' ([labelled ''c'' ''ctl-2'' ''pool-2''], [])
     = (Inr [\<lparr>ProviderID = ''c'', ProviderInstance.Name = ''runner-c'', Status = InstanceRunning,
               ProviderInstance.OSType = [], ProviderInstance.OSArch = [], OSName = [], OSVersion = [],
               Addresses = None\<rparr>],
        ([labelled ''c'' ''ctl-2'' ''pool-2''],
         [EvContainerList
            \<lparr>Filters = {(''label'', ''garm.runner/controller-id=ctl-1''), (''label'', ''garm.runner/pool-id=pool-1'')},
             All = True\<rparr>
            (Inr [labelled ''c'' ''ctl-2'' ''pool-2''])]))"
  by (simp add: ListInstances_def do_call_def Add_def NewArgs_def listing_defs
        containerSummaryToInstance_def lookup_def Let_def insert_commute)

section \<open>RemoveAllInstances\<close>




section \<open>Registry credentials\<close>

text \<open>
  C8. \<open>getRegistryAuth\<close> returns a string and nothing else. The registry host is the
  part of the image reference before its first slash when there is a slash and that
  part contains a dot or a colon, and \<open>docker.io\<close> otherwise. The result is the empty
  string when the home directory is needed and cannot be determined, when the
  credential file cannot be read, when it cannot be parsed, when it has no entry for the
  registry host, when the entry cannot be decoded, and when the decoded entry has no
  colon; otherwise it is the encoding of the user name and password, or the empty string
  when they cannot be marshalled.
\<close>

theorem getRegistryAuth_never_fails:
  "registryHost imageRef
     = (if CHR ''/'' \<in> set imageRef
          \<and> (CHR ''.'' \<in> set (takeWhile (\<lambda>x. x \<noteq> CHR ''/'') imageRef)
             \<or> CHR '':'' \<in> set (takeWhile (\<lambda>x. x \<noteq> CHR ''/'') imageRef))
        then takeWhile (\<lambda>x. x \<noteq> CHR ''/'') imageRef else ''docker.io'')
 \<and> (DockerConfigPath config = [] \<and> (\<exists>err. os_UserHomeDir sys = Inl err)
       \<longrightarrow> getRegistryAuth sys config imageRef = [])
 \<and> (\<forall>configPath.
       (DockerConfigPath config \<noteq> [] \<and> configPath = DockerConfigPath config
        \<or> DockerConfigPath config = []
          \<and> (\<exists>home. os_UserHomeDir sys = Inr home \<and> configPath = home @ ''/.docker/config.json''))
       \<longrightarrow>
         ((\<exists>err. os_ReadFile sys configPath = Inl err) \<longrightarrow> getRegistryAuth sys config imageRef = [])
       \<and> (\<forall>data. os_ReadFile sys configPath = Inr data \<longrightarrow>
            ((\<exists>err. json_Unmarshal sys data = Inl err) \<longrightarrow> getRegistryAuth sys config imageRef = [])
          \<and> (\<forall>cfg. json_Unmarshal sys data = Inr cfg \<longrightarrow>
               (Auths cfg (registryHost imageRef) = None \<longrightarrow> getRegistryAuth sys config imageRef = [])
             \<and> (\<forall>entry. Auths cfg (registryHost imageRef) = Some entry \<longrightarrow>
                  ((\<exists>err. base64_DecodeString sys (Auth entry) = Inl err)
                      \<longrightarrow> getRegistryAuth sys config imageRef = [])
                \<and> (\<forall>decoded. base64_DecodeString sys (Auth entry) = Inr decoded \<longrightarrow>
                     (CHR '':'' \<notin> set decoded \<longrightarrow> getRegistryAuth sys config imageRef = [])
                   \<and> (CHR '':'' \<in> set decoded \<longrightarrow>
                        getRegistryAuth sys config imageRef
                          = (case json_Marshal sys
                                    \<lparr>Username = takeWhile (\<lambda>x. x \<noteq> CHR '':'') decoded,
                                     Password = tl (dropWhile (\<lambda>x. x \<noteq> CHR '':'') decoded)\<rparr> of
                               Inl err \<Rightarrow> []
                             | Inr authJSON \<Rightarrow> base64_URLEncodeToString sys authJSON)))))))"
proof (intro conjI)
  show "registryHost imageRef
     = (if CHR ''/'' \<in> set imageRef
          \<and> (CHR ''.'' \<in> set (takeWhile (\<lambda>x. x \<noteq> CHR ''/'') imageRef)
             \<or> CHR '':'' \<in> set (takeWhile (\<lambda>x. x \<noteq> CHR ''/'') imageRef))
        then takeWhile (\<lambda>x. x \<noteq> CHR ''/'') imageRef else ''docker.io'')"
    by (simp add: registryHost_def Contains_def SplitN2_def Let_def)
next
  show "DockerConfigPath config = [] \<and> (\<exists>err. os_UserHomeDir sys = Inl err)
       \<longrightarrow> getRegistryAuth sys config imageRef = []"
    by (auto simp: getRegistryAuth_def)
next
  show "\<forall>configPath.
       (DockerConfigPath config \<noteq> [] \<and> configPath = DockerConfigPath config
        \<or> DockerConfigPath config = []
          \<and> (\<exists>home. os_UserHomeDir sys = Inr home \<and> configPath = home @ ''/.docker/config.json''))
       \<longrightarrow>
         ((\<exists>err. os_ReadFile sys configPath = Inl err) \<longrightarrow> getRegistryAuth sys config imageRef = [])
       \<and> (\<forall>data. os_ReadFile sys configPath = Inr data \<longrightarrow>
            ((\<exists>err. json_Unmarshal sys data = Inl err) \<longrightarrow> getRegistryAuth sys config imageRef = [])
          \<and> (\<forall>cfg. json_Unmarshal sys data = Inr cfg \<longrightarrow>
               (Auths cfg (registryHost imageRef) = None \<longrightarrow> getRegistryAuth sys config imageRef = [])
             \<and> (\<forall>entry. Auths cfg (registryHost imageRef) = Some entry \<longrightarrow>
                  ((\<exists>err. base64_DecodeString sys (Auth entry) = Inl err)
                      \<longrightarrow> getRegistryAuth sys config imageRef = [])
                \<and> (\<forall>decoded. base64_DecodeString sys (Auth entry) = Inr decoded \<longrightarrow>
                     (CHR '':'' \<notin> set decoded \<longrightarrow> getRegistryAuth sys config imageRef = [])
                   \<and> (CHR '':'' \<in> set decoded \<longrightarrow>
                        getRegistryAuth sys config imageRef
                          = (case json_Marshal sys
                                    \<lparr>Username = takeWhile (\<lambda>x. x \<noteq> CHR '':'') decoded,
                                     Password = tl (dropWhile (\<lambda>x. x \<noteq> CHR '':'') decoded)\<rparr> of
                               Inl err \<Rightarrow> []
                             | Inr authJSON \<Rightarrow> base64_URLEncodeToString sys authJSON))))))"
    by (auto simp: getRegistryAuth_def SplitN2_def Let_def)
qed

theorem getRegistryAuth_never_fails_witness:
  "registryHost ''ghcr.io/org/img:1'' = ''ghcr.io''
 \<and> registryHost ''localhost:5000/img'' = ''localhost:5000''
 \<and> registryHost ''library/ubuntu'' = ''docker.io''
 \<and> registryHost ''ubuntu:latest'' = ''docker.io''
 \<and> getRegistryAuth (test_platform (Inl (LibError ''$HOME is not defined''))) zero_config ''ghcr.io/org/img:1'' = []
 \<and> getRegistryAuth (test_platform (Inr ''/root'')) zero_config ''ghcr.io/org/img:1'' = []
 \<and> getRegistryAuth (test_platform (Inr ''/home/garm'')) (zero_config\<lparr>DockerConfigPath := ''/etc/garm/broken.json''\<rparr>)
      ''ghcr.io/org/img:1'' = []
 \<and> getRegistryAuth (test_platform (Inr ''/home/garm'')) zero_config ''quay.io/org/img'' = []
 \<and> getRegistryAuth (test_platform (Inr ''/home/garm'')) zero_config ''registry.local:5000/img'' = []
 \<and> getRegistryAuth (test_platform (Inr ''/home/garm'')) zero_config ''ubuntu:latest'' = []
 \<and> getRegistryAuth (test_platform (Inr ''/home/garm'')) zero_config ''ghcr.io/org/img:1''
      = ''base64url:username=user,password=pass''"
proof -
  let ?sys = "test_platform (Inr ''/home/garm'')"
  note t = getRegistryAuth_never_fails
  have hosts: "registryHost ''ghcr.io/org/img:1'' = ''ghcr.io''"
       "registryHost ''localhost:5000/img'' = ''localhost:5000''"
       "registryHost ''library/ubuntu'' = ''docker.io''"
       "registryHost ''ubuntu:latest'' = ''docker.io''"
       "registryHost ''quay.io/org/img'' = ''quay.io''"
       "registryHost ''registry.local:5000/img'' = ''registry.local:5000''"
    using t [of "''ghcr.io/org/img:1''", THEN conjunct1] t [of "''localhost:5000/img''", THEN conjunct1]
          t [of "''library/ubuntu''", THEN conjunct1] t [of "''ubuntu:latest''", THEN conjunct1]
          t [of "''quay.io/org/img''", THEN conjunct1] t [of "''registry.local:5000/img''", THEN conjunct1]
    by simp_all
  have nohome: "getRegistryAuth (test_platform (Inl (LibError ''$HOME is not defined''))) zero_config
                  ''ghcr.io/org/img:1'' = []"
    using t [where sys = "test_platform (Inl (LibError ''$HOME is not defined''))" and config = zero_config
               and imageRef = "''ghcr.io/org/img:1''", THEN conjunct2, THEN conjunct1]
    by (simp add: test_platform_def zero_config_def)
  have rest: "getRegistryAuth sys config imageRef = result"
    if "DockerConfigPath config \<noteq> [] \<and> configPath = DockerConfigPath config
        \<or> DockerConfigPath config = []
          \<and> (\<exists>home. os_UserHomeDir sys = Inr home \<and> configPath = home @ ''/.docker/config.json'')"
       "(\<exists>err. os_ReadFile sys configPath = Inl err) \<and> result = []
        \<or> (\<exists>data. os_ReadFile sys configPath = Inr data \<and>
             ((\<exists>err. json_Unmarshal sys data = Inl err) \<and> result = []
              \<or> (\<exists>cfg. json_Unmarshal sys data = Inr cfg \<and>
                   (Auths cfg (registryHost imageRef) = None \<and> result = []
                    \<or> (\<exists>entry. Auths cfg (registryHost imageRef) = Some entry \<and>
                         ((\<exists>err. base64_DecodeString sys (Auth entry) = Inl err) \<and> result = []
                          \<or> (\<exists>decoded. base64_DecodeString sys (Auth entry) = Inr decoded \<and>
                               (CHR '':'' \<notin> set decoded \<and> result = []
                                \<or> CHR '':'' \<in> set decoded \<and>
                                  result = (case json_Marshal sys
                                    \<lparr>Username = takeWhile (\<lambda>x. x \<noteq> CHR '':'') decoded,
                                     Password = tl (dropWhile (\<lambda>x. x \<noteq> CHR '':'') decoded)\<rparr> of
                                      Inl err \<Rightarrow> []
                                    | Inr authJSON \<Rightarrow> base64_URLEncodeToString sys authJSON)))))))))"
    for sys config imageRef configPath result
    using that t [of imageRef config sys, THEN conjunct2, THEN conjunct2, rule_format, of configPath]
    by blast
  have noroot: "getRegistryAuth (test_platform (Inr ''/root'')) zero_config ''ghcr.io/org/img:1'' = []"
    by (rule rest [where configPath = "''/root/.docker/config.json''"])
       (simp_all add: test_platform_def zero_config_def)
  have broken: "getRegistryAuth ?sys (zero_config\<lparr>DockerConfigPath := ''/etc/garm/broken.json''\<rparr>)
      ''ghcr.io/org/img:1'' = []"
    by (rule rest [where configPath = "''/etc/garm/broken.json''"])
       (simp_all add: test_platform_def zero_config_def)
  have noentry: "getRegistryAuth ?sys zero_config ''quay.io/org/img'' = []"
    by (rule rest [where configPath = "''/home/garm/.docker/config.json''"])
       (simp_all add: test_platform_def zero_config_def test_docker_config_def hosts)
  have undecodable: "getRegistryAuth ?sys zero_config ''registry.local:5000/img'' = []"
    by (rule rest [where configPath = "''/home/garm/.docker/config.json''"])
       (simp_all add: test_platform_def zero_config_def test_docker_config_def hosts)
  have nocolon: "getRegistryAuth ?sys zero_config ''ubuntu:latest'' = []"
    by (rule rest [where configPath = "''/home/garm/.docker/config.json''"])
       (simp_all add: test_platform_def zero_config_def test_docker_config_def hosts)
  have good: "getRegistryAuth ?sys zero_config ''ghcr.io/org/img:1'' = ''base64url:username=user,password=pass''"
    by (rule rest [where configPath = "''/home/garm/.docker/config.json''"])
       (simp_all add: test_platform_def zero_config_def test_docker_config_def hosts)
  from hosts nohome noroot broken noentry undecodable nocolon good show ?thesis
    by simp
qed

section \<open>The inspection after the start\<close>

lemma resolveImage_last:
  "resolveImage sys config cli imageRef w0 = (re, w2) \<Longrightarrow>
     snd w2 \<noteq> [] \<and> (is_ImageInspect (last (snd w2)) \<or> is_ImagePull (last (snd w2)))"
  unfolding resolveImage_def do_call_def Let_def
  by (auto split: sum.splits prod.splits option.splits if_splits)

lemma CreateInstance_inspected:
  assumes tr: "snd (snd (CreateInstance sys config p bootstrapParams w0)) = tr @ [EvContainerInspect cid (Inr c)]"
      and base: "ContainerJSONBase c = Some base"
      and nets: "containerToAddresses c = Inr addrs"
  shows "\<exists>inst. fst (CreateInstance sys config p bootstrapParams w0) = Inr inst
            \<and> ProviderID inst = ContainerJSONBase.ID base \<and> Addresses inst = Some addrs"
proof -
  let ?run = "CreateInstance sys config p bootstrapParams w0"
  obtain re w2 where res:
    "resolveImage sys config (DockerClient p) (BootstrapInstance.Image bootstrapParams) w0 = (re, w2)"
    by (cases "resolveImage sys config (DockerClient p) (BootstrapInstance.Image bootstrapParams) w0")
  from resolveImage_last [OF res]
  have img: "snd w2 \<noteq> []" "last (snd w2) \<noteq> EvContainerInspect cid (Inr c)"
    by auto
  from tr have lst: "last (snd (snd ?run)) = EvContainerInspect cid (Inr c)"
    by simp
  show ?thesis
  proof (cases re)
    case (Some e)
    with res have "?run = (Inl e, w2)" by (simp add: CreateInstance_def)
    with lst img show ?thesis by simp
  next
    case None
    note re = this
    show ?thesis
    proof (cases "GetRunnerEnvs (url_Parse sys) bootstrapParams")
      case (Inl err)
      with res re have "?run = (Inl (Wrap ''failed to generate envs'' err), w2)"
        by (simp add: CreateInstance_def)
      with lst img show ?thesis by simp
    next
      case (Inr envs)
      have "last (snd (snd ?run)) = EvContainerInspect cid (Inr c) \<longrightarrow>
              (\<exists>inst. fst ?run = Inr inst \<and> ProviderID inst = ContainerJSONBase.ID base
                  \<and> Addresses inst = Some addrs)"
        using res re Inr base nets unfolding CreateInstance_def Let_def
        by (auto simp: case_prod_beta do_call_trace do_call_fst
                 split: sum.split option.split split del: if_split)
      with lst show ?thesis by blast
    qed
  qed
qed

text \<open>
  C10, as the code has it. Without network settings the address extraction returns the
  empty list, and \<open>CreateInstance\<close>, when the last answer of the engine is an inspection
  that carries its base part and no network settings, returns an instance whose
  addresses are the empty list that is not nil. The address extraction returns
  normally exactly when no network of the container has a nil endpoint.
\<close>

theorem CreateInstance_without_networks:
  "(NetworkSettings c = None \<longrightarrow> containerToAddresses c = Inr [])
 \<and> ((\<exists>addrs. containerToAddresses c = Inr addrs)
       \<longleftrightarrow> (\<forall>ns. NetworkSettings c = Some ns \<longrightarrow> None \<notin> snd ` set (Networks ns)))
 \<and> (\<forall>tr cid base.
        snd (snd (CreateInstance sys config p bootstrapParams w0)) = tr @ [EvContainerInspect cid (Inr c)]
      \<and> ContainerJSONBase c = Some base \<and> NetworkSettings c = None \<longrightarrow>
        (\<exists>inst. fst (CreateInstance sys config p bootstrapParams w0) = Inr inst
           \<and> ProviderID inst = ContainerJSONBase.ID base \<and> Addresses inst = Some []))"
proof (intro conjI allI impI)
  assume "NetworkSettings c = None"
  then show "containerToAddresses c = Inr []"
    by (simp add: containerToAddresses_def)
next
  show "(\<exists>addrs. containerToAddresses c = Inr addrs)
       \<longleftrightarrow> (\<forall>ns. NetworkSettings c = Some ns \<longrightarrow> None \<notin> snd ` set (Networks ns))"
    by (rule containerToAddresses_returns)
next
  fix tr cid base
  assume a: "snd (snd (CreateInstance sys config p bootstrapParams w0)) = tr @ [EvContainerInspect cid (Inr c)]
      \<and> ContainerJSONBase c = Some base \<and> NetworkSettings c = None"
  then have "containerToAddresses c = Inr []"
    by (simp add: containerToAddresses_def)
  with a CreateInstance_inspected [of sys config p bootstrapParams w0 tr cid c base "[]"]
  show "\<exists>inst. fst (CreateInstance sys config p bootstrapParams w0) = Inr inst
           \<and> ProviderID inst = ContainerJSONBase.ID base \<and> Addresses inst = Some []"
    by blast
qed

theorem CreateInstance_without_networks_witness:
  "NetworkSettings (sample_container (Some (state_of True False False False)) None) = None
 \<and> containerToAddresses (sample_container (Some (state_of True False False False)) None) = Inr []
 \<and> fst (CreateInstance (test_platform (Inr ''/home/garm'')) (setDefaults zero_config)
          (test_provider (test_engine None (sample_container (Some (state_of True False False False)) None)))
          test_request ([], []))
     = Inr \<lparr>ProviderID = ''c0ffee'', ProviderInstance.Name = ''runner-1'', Status = InstanceRunning,
            ProviderInstance.OSType = ''linux'', ProviderInstance.OSArch = ''amd64'',
            OSName = ''linux'', OSVersion = ''unknown'', Addresses = Some []\<rparr>
 \<and> (\<exists>addrs. containerToAddresses (sample_container None (Some two_networks)) = Inr addrs)"
proof -
  let ?c = "sample_container (Some (state_of True False False False)) None"
  let ?run = "CreateInstance (test_platform (Inr ''/home/garm'')) (setDefaults zero_config)
          (test_provider (test_engine None ?c)) test_request ([], [])"
  note t = CreateInstance_without_networks
  have n: "NetworkSettings ?c = None"
    by (simp add: sample_container_def)
  have b: "ContainerJSONBase ?c = Some \<lparr>ContainerJSONBase.ID = ''c0ffee'', ContainerJSONBase.Name = ''/runner-1'',
                               ContainerJSONBase.State = Some (state_of True False False False)\<rparr>"
    by (simp add: sample_container_def)
  have tr: "snd (snd ?run) = butlast (snd (snd ?run)) @ [EvContainerInspect ''c0ffee'' (Inr ?c)]"
    by (simp add: create_defs test_engine_def test_provider_def test_request_def test_platform_def
          zero_config_def setDefaults_def b n)
  have 1: "containerToAddresses ?c = Inr []"
    using t [of ?c, THEN conjunct1] n by simp
  have "\<exists>inst. fst ?run = Inr inst \<and> ProviderID inst = ''c0ffee'' \<and> Addresses inst = Some []"
    using t [where c = ?c and sys = "test_platform (Inr ''/home/garm'')" and config = "setDefaults zero_config"
               and p = "test_provider (test_engine None ?c)" and bootstrapParams = test_request
               and ?w0.0 = "([], [])", THEN conjunct2, THEN conjunct2, rule_format,
             of "butlast (snd (snd ?run))" "''c0ffee''"] tr b n
    by simp
  moreover have 2: "fst ?run
     = Inr \<lparr>ProviderID = ''c0ffee'', ProviderInstance.Name = ''runner-1'', Status = InstanceRunning,
            ProviderInstance.OSType = ''linux'', ProviderInstance.OSArch = ''amd64'',
            OSName = ''linux'', OSVersion = ''unknown'', Addresses = Some []\<rparr>"
    by (simp add: create_defs sample_defs)
  moreover have 3: "\<exists>addrs. containerToAddresses (sample_container None (Some two_networks)) = Inr addrs"
    using t [of "sample_container None (Some two_networks)", THEN conjunct2, THEN conjunct1]
    by (simp add: sample_container_def two_networks_def)
  ultimately show ?thesis
    using n 1 by simp
qed

text \<open>
  C10, as it is stated, fails. The address extraction is not total: it panics on a
  network whose endpoint is nil, and so does \<open>CreateInstance\<close>; \<open>CreateInstance\<close> also
  panics on an inspection answer without its base part, which has no network settings
  either.
\<close>

theorem containerToAddresses_nil_endpoint:
  "containerToAddresses (sample_container (Some (state_of True False False False)) (Some dangling_network))
     = Inl NilPointerPanic
 \<and> fst (CreateInstance (test_platform (Inr ''/home/garm'')) (setDefaults zero_config)
          (test_provider (test_engine None
             (sample_container (Some (state_of True False False False)) (Some dangling_network))))
          test_request ([], []))
     = Inl NilPointerPanic
 \<and> fst (CreateInstance (test_platform (Inr ''/home/garm'')) (setDefaults zero_config)
          (test_provider (test_engine None
             \<lparr>ContainerJSONBase = None, Config = None, NetworkSettings = None\<rparr>))
          test_request ([], []))
     = Inl NilPointerPanic"
  by (simp add: create_defs sample_defs)

end
